theory Spec2Isabelle
  imports Complex_Main "HOL-Library.Word"
begin

section \<open>Epipolar geometry of RTAB-Map: a shallow embedding of EpipolarGeometry.cpp\<close>

text \<open>
  Conventions of the embedding.
  \<^item> A \<^verbatim>\<open>double\<close> or \<^verbatim>\<open>float\<close> is a \<^typ>\<open>real\<close>: rounding, infinities and NaN are
    not modelled, so the theorems are about which operations the code applies to which
    operands and about its control flow, not about numerical error.
  \<^item> A \<^verbatim>\<open>std::multimap<int, cv::KeyPoint>\<close> is an association list; entries with the same
    label keep their relative order.
  \<^item> Container sizes and the \<^verbatim>\<open>int\<close> counters that add them up are unbounded (\<^typ>\<open>nat\<close>,
    \<^typ>\<open>int\<close>): signed overflow is undefined in C++, and it would take more than
    \<open>2^31 - 1\<close> keypoints in one signature to reach it.
  \<^item> What OpenCV computes (SVD, least-squares solve, RANSAC fit, triangulation) is a
    parameter of the function that calls it.
\<close>

subsection \<open>Data model\<close>

datatype Point2f = Point2f (px: real) (py: real)

record KeyPoint =
  pt :: Point2f
  kp_size :: real
  angle :: real
  response :: real
  octave :: int
  class_id :: int

type_synonym uchar = "8 word"

type_synonym 'v multimap = "(int \<times> 'v) list"

type_synonym correspondence = "int \<times> (KeyPoint \<times> KeyPoint)"

datatype Vec3d = Vec3d real real real

datatype Point3d = Point3d (p3x: real) (p3y: real) (p3z: real)

datatype PointXYZ = PointXYZ real real real

datatype error = AssertionFailed

subsection \<open>Dense matrices\<close>

text \<open>
  The elements of a matrix, row by row. \<open>at_double m i j\<close> is \<^verbatim>\<open>m.at<double>(i,j)\<close>, and
  also \<^verbatim>\<open>m(i,j)\<close> of a \<^verbatim>\<open>cv::Matx\<close>; the one-index access \<^verbatim>\<open>m(i)\<close> of a column vector
  is \<open>at_double m i 0\<close>.
\<close>

type_synonym matrix = "real list list"

definition at_double :: "matrix \<Rightarrow> nat \<Rightarrow> nat \<Rightarrow> real" where
  "at_double m i j = m ! i ! j"

definition set_at :: "matrix \<Rightarrow> nat \<Rightarrow> nat \<Rightarrow> real \<Rightarrow> matrix" where
  "set_at m i j v = m[i := (m ! i)[j := v]]"

definition ncols :: "matrix \<Rightarrow> nat" where
  "ncols m = (case m of [] \<Rightarrow> 0 | r # _ \<Rightarrow> length r)"

definition col :: "matrix \<Rightarrow> nat \<Rightarrow> matrix" where
  "col m j = map (\<lambda>r. [r ! j]) m"

definition submat :: "matrix \<Rightarrow> nat \<Rightarrow> nat \<Rightarrow> nat \<Rightarrow> nat \<Rightarrow> matrix" where
  "submat m r0 r1 c0 c1 = map (\<lambda>r. take (c1 - c0) (drop c0 r)) (take (r1 - r0) (drop r0 m))"

definition mat_t :: "matrix \<Rightarrow> matrix" where
  "mat_t m = map (\<lambda>j. map (\<lambda>r. r ! j) m) [0..<ncols m]"

definition dot :: "real list \<Rightarrow> real list \<Rightarrow> real" where
  "dot r c = sum_list (map2 (*) r c)"

definition mat_mul :: "matrix \<Rightarrow> matrix \<Rightarrow> matrix" where
  "mat_mul a b = map (\<lambda>r. map (\<lambda>j. dot r (map (\<lambda>rb. rb ! j) b)) [0..<ncols b]) a"

definition mat_neg :: "matrix \<Rightarrow> matrix" where
  "mat_neg m = map (map uminus) m"

definition zeros :: "nat \<Rightarrow> nat \<Rightarrow> matrix" where
  "zeros r c = replicate r (replicate c 0)"

definition eye3 :: matrix where
  "eye3 = [[1, 0, 0], [0, 1, 0], [0, 0, 1]]"

definition det3 :: "matrix \<Rightarrow> real" where
  "det3 m = at_double m 0 0 * (at_double m 1 1 * at_double m 2 2 - at_double m 1 2 * at_double m 2 1)
          - at_double m 0 1 * (at_double m 1 0 * at_double m 2 2 - at_double m 1 2 * at_double m 2 0)
          + at_double m 0 2 * (at_double m 1 0 * at_double m 2 1 - at_double m 1 1 * at_double m 2 0)"

text \<open>
  \<^verbatim>\<open>cv::Mat::inv()\<close> on a 3\<times>3 matrix, the only size the module inverts: the inverse by
  cofactors, and the zero matrix when the determinant is zero.
\<close>

definition mat_inv :: "matrix \<Rightarrow> matrix" where
  "mat_inv m =
     (let d = det3 m in
      if d = 0 then zeros 3 3
      else [[(at_double m 1 1 * at_double m 2 2 - at_double m 1 2 * at_double m 2 1) / d,
             (at_double m 0 2 * at_double m 2 1 - at_double m 0 1 * at_double m 2 2) / d,
             (at_double m 0 1 * at_double m 1 2 - at_double m 0 2 * at_double m 1 1) / d],
            [(at_double m 1 2 * at_double m 2 0 - at_double m 1 0 * at_double m 2 2) / d,
             (at_double m 0 0 * at_double m 2 2 - at_double m 0 2 * at_double m 2 0) / d,
             (at_double m 0 2 * at_double m 1 0 - at_double m 0 0 * at_double m 1 2) / d],
            [(at_double m 1 0 * at_double m 2 1 - at_double m 1 1 * at_double m 2 0) / d,
             (at_double m 0 1 * at_double m 2 0 - at_double m 0 0 * at_double m 2 1) / d,
             (at_double m 0 0 * at_double m 1 1 - at_double m 0 1 * at_double m 1 0) / d]])"

text \<open>
  \<^verbatim>\<open>cv::Mat\<close>: the element type code and the elements, row by row. The empty matrix
  \<^verbatim>\<open>cv::Mat()\<close> has type code 0 and no rows.
\<close>

record Mat =
  mtype :: int
  elems :: matrix

definition rows :: "Mat \<Rightarrow> nat" where
  "rows m = length (elems m)"

definition cols :: "Mat \<Rightarrow> nat" where
  "cols m = (case elems m of [] \<Rightarrow> 0 | r # _ \<Rightarrow> length r)"

text \<open>OpenCV's type code of a one-channel matrix of doubles: depth \<^verbatim>\<open>CV_64F\<close> = 6.\<close>

definition CV_64FC1 :: int where
  "CV_64FC1 = 6"

definition empty_Mat :: Mat where
  "empty_Mat = \<lparr>mtype = 0, elems = []\<rparr>"

definition Mat64 :: "real list list \<Rightarrow> Mat" where
  "Mat64 rs = \<lparr>mtype = CV_64FC1, elems = rs\<rparr>"

record Signature =
  sig_id :: int
  getWords :: "KeyPoint multimap"

record EpipolarGeometry =
  matchCountMinAccepted :: int
  ransacParam1 :: real
  ransacParam2 :: real

subsection \<open>Correspondence matcher\<close>

text \<open>
  Modelled from the spec: \<^verbatim>\<open>uUniqueKeys\<close> and \<^verbatim>\<open>uValues\<close> of \<^verbatim>\<open>rtabmap/utilite/UStl.h\<close>,
  which is not among the sources. The matcher visits "each label present in A" once, in
  "ascending label order"; the keypoints of a label come in "the input mapping's internal
  order".
\<close>

definition uUniqueKeys :: "'v multimap \<Rightarrow> int list" where
  "uUniqueKeys mm = sort (remdups (map fst mm))"

definition uValues :: "'v multimap \<Rightarrow> int \<Rightarrow> 'v list" where
  "uValues mm key = map snd (filter (\<lambda>e. fst e = key) mm)"

text \<open>
  One turn of the loop of \<^verbatim>\<open>findPairsUnique\<close>; the state is the output list \<^verbatim>\<open>pairs\<close> and
  the counter \<^verbatim>\<open>realPairsCount\<close>.
\<close>

definition findPairsUnique_step ::
  "KeyPoint multimap \<Rightarrow> KeyPoint multimap \<Rightarrow> int
    \<Rightarrow> correspondence list \<times> int \<Rightarrow> correspondence list \<times> int" where
  "findPairsUnique_step wordsA wordsB i st =
     (let ptsA = uValues wordsA i;
          ptsB = uValues wordsB i;
          pairs = fst st;
          realPairsCount = snd st
      in if length ptsA = 1 \<and> length ptsB = 1
         then (pairs @ [(i, (hd ptsA, hd ptsB))], realPairsCount + 1)
         else if length ptsA > 1 \<and> length ptsB > 1
         then (pairs,
               realPairsCount +
                 int (if length ptsA > length ptsB then length ptsB else length ptsA))
         else (pairs, realPairsCount))"

definition findPairsUnique ::
  "KeyPoint multimap \<Rightarrow> KeyPoint multimap \<Rightarrow> correspondence list \<times> int" where
  "findPairsUnique wordsA wordsB =
     fold (findPairsUnique_step wordsA wordsB) (uUniqueKeys wordsA) ([], 0)"

text \<open>One turn of the outer loop of \<^verbatim>\<open>findPairsAll\<close>: the inner iterations push the cross product.\<close>

definition findPairsAll_step ::
  "KeyPoint multimap \<Rightarrow> KeyPoint multimap \<Rightarrow> int
    \<Rightarrow> correspondence list \<times> int \<Rightarrow> correspondence list \<times> int" where
  "findPairsAll_step wordsA wordsB i st =
     (let ptsA = uValues wordsA i;
          ptsB = uValues wordsB i;
          pairs = fst st;
          realPairsCount = snd st
      in (pairs @ concat (map (\<lambda>j. map (\<lambda>k. (i, (j, k))) ptsB) ptsA),
          realPairsCount +
            int (if length ptsA > length ptsB then length ptsB else length ptsA)))"

definition findPairsAll ::
  "KeyPoint multimap \<Rightarrow> KeyPoint multimap \<Rightarrow> correspondence list \<times> int" where
  "findPairsAll wordsA wordsB =
     fold (findPairsAll_step wordsA wordsB) (uUniqueKeys wordsA) ([], 0)"

subsection \<open>Robust fundamental matrix estimator\<close>

text \<open>
  \<^verbatim>\<open>cv::findFundamentalMat(points1, points2, status, cv::FM_RANSAC, param1, param2)\<close> is
  a parameter: from the two point arrays, the mask as it was before the call and the two
  RANSAC parameters it gives the matrix and the mask after the call.
\<close>

type_synonym fundamental_fit =
  "Point2f list \<Rightarrow> Point2f list \<Rightarrow> uchar list \<Rightarrow> real \<Rightarrow> real \<Rightarrow> Mat \<times> uchar list"

text \<open>
  The result is the returned matrix and the output argument \<^verbatim>\<open>status\<close>; a failed
  \<^verbatim>\<open>UASSERT\<close> is \<open>Inl AssertionFailed\<close>. The test for a non-zero matrix only feeds the
  log.
\<close>

definition findFFromWords ::
  "fundamental_fit \<Rightarrow> correspondence list \<Rightarrow> real \<Rightarrow> real \<Rightarrow> error + Mat \<times> uchar list" where
  "findFFromWords findFundamentalMat pairs ransacParam1' ransacParam2' =
     (let status = replicate (length pairs) (0 :: uchar);
          points1 = map (\<lambda>c. pt (fst (snd c))) pairs;
          points2 = map (\<lambda>c. pt (snd (snd c))) pairs;
          fit = findFundamentalMat points1 points2 status ransacParam1' ransacParam2';
          fundamentalMatrix = fst fit;
          status = snd fit
      in if mtype fundamentalMatrix \<noteq> CV_64FC1 then Inl AssertionFailed
         else Inr (fundamentalMatrix, status))"

subsection \<open>Verification facade\<close>

text \<open>
  Modelled from the spec: \<^verbatim>\<open>uSum\<close> of \<^verbatim>\<open>rtabmap/utilite/UMath.h\<close>, which is not among the
  sources. "Reports inlier count = sum of the mask."
\<close>

definition uSum :: "uchar list \<Rightarrow> int" where
  "uSum v = (\<Sum>b\<leftarrow>v. uint b)"

text \<open>
  \<^verbatim>\<open>check\<close> takes two pointers: \<open>None\<close> is the null pointer. Beside the returned value
  the model keeps a log of the calls of \<^verbatim>\<open>findFFromWords\<close>, one entry per call, holding the
  correspondences passed.
\<close>

definition check ::
  "fundamental_fit \<Rightarrow> EpipolarGeometry \<Rightarrow> Signature option \<Rightarrow> Signature option
    \<Rightarrow> (error + bool) \<times> correspondence list list" where
  "check findFundamentalMat this ssA ssB =
     (if ssA = None \<or> ssB = None then (Inr False, [])
      else
        let pairs = fst (findPairsUnique (getWords (the ssA)) (getWords (the ssB)))
        in if int (length pairs) < matchCountMinAccepted this then (Inr False, [])
           else
             case findFFromWords findFundamentalMat pairs (ransacParam1 this) (ransacParam2 this) of
               Inl e \<Rightarrow> (Inl e, [pairs])
             | Inr (f, status) \<Rightarrow>
                 let inliers = uSum status
                 in if inliers < matchCountMinAccepted this then (Inr False, [pairs])
                    else (Inr True, [pairs]))"

subsection \<open>Pose recovery\<close>

text \<open>What \<^verbatim>\<open>cv::SVD svd(m)\<close> holds after construction: \<^verbatim>\<open>svd.u\<close>, \<^verbatim>\<open>svd.w\<close>, \<^verbatim>\<open>svd.vt\<close>.\<close>

record SVD =
  svd_u :: matrix
  svd_w :: matrix
  svd_vt :: matrix

text \<open>
  The two output arguments are passed in and returned; a return before the assignments
  leaves them as they were.
\<close>

definition findEpipolesFromF :: "(matrix \<Rightarrow> SVD) \<Rightarrow> Mat \<Rightarrow> Vec3d \<times> Vec3d \<Rightarrow> Vec3d \<times> Vec3d" where
  "findEpipolesFromF cv_SVD fundamentalMatrix e1e2 =
     (if rows fundamentalMatrix \<noteq> 3 \<or> cols fundamentalMatrix \<noteq> 3 then e1e2
      else if mtype fundamentalMatrix \<noteq> CV_64FC1 then e1e2
      else
        let svd = cv_SVD (elems fundamentalMatrix);
            u = svd_u svd;
            v = svd_vt svd;
            w = svd_w svd
        in (Vec3d (at_double v 0 2) (at_double v 1 2) (at_double v 2 2),
            Vec3d (at_double u 0 2) (at_double u 1 2) (at_double u 2 2)))"

text \<open>
  \<^verbatim>\<open>cvSVD(&F, &S, &U, &V, CV_SVD_U_T|CV_SVD_V_T)\<close> is a parameter giving the three output
  matrices \<open>(S, U, V)\<close>; with these flags the library stores the transposed factors in
  \<^verbatim>\<open>U\<close> and \<^verbatim>\<open>V\<close>. \<^verbatim>\<open>cv::triangulatePoints(p0, p, x, xp, x4d)\<close> is a parameter giving
  \<^verbatim>\<open>x4d\<close>, a 4\<times>1 matrix.
\<close>

type_synonym cvSVD_call = "matrix \<Rightarrow> matrix \<times> matrix \<times> matrix"

type_synonym triangulate_call = "matrix \<Rightarrow> matrix \<Rightarrow> matrix \<Rightarrow> matrix \<Rightarrow> matrix"

text \<open>
  The block repeated after each of the four candidates: triangulate the sample point,
  divide the four coordinates by the fourth, project with both cameras, and test
  \<^verbatim>\<open>xt1.at<double>(2,0) < 0 || xt2.at<double>(2,0) < 0\<close>.
\<close>

definition dehomogenize :: "matrix \<Rightarrow> matrix" where
  "dehomogenize x4d =
     [[at_double x4d 0 0 / at_double x4d 3 0],
      [at_double x4d 1 0 / at_double x4d 3 0],
      [at_double x4d 2 0 / at_double x4d 3 0],
      [at_double x4d 3 0 / at_double x4d 3 0]]"

definition behind_a_camera ::
  "triangulate_call \<Rightarrow> matrix \<Rightarrow> matrix \<Rightarrow> matrix \<Rightarrow> matrix \<Rightarrow> bool" where
  "behind_a_camera cv_triangulatePoints p0 p x' xp =
     (let x4d = dehomogenize (cv_triangulatePoints p0 p x' xp);
          xt1 = mat_mul p0 x4d;
          xt2 = mat_mul p x4d
      in at_double xt1 2 0 < 0 \<or> at_double xt2 2 0 < 0)"

text \<open>The nine assignments \<^verbatim>\<open>p.at<double>(i,j) = r.at<double>(i,j)\<close>.\<close>

definition assign_rotation :: "matrix \<Rightarrow> matrix \<Rightarrow> matrix" where
  "assign_rotation p r =
     fold (\<lambda>(i, j) q. set_at q i j (at_double r i j))
       [(0, 0), (0, 1), (0, 2), (1, 0), (1, 1), (1, 2), (2, 0), (2, 1), (2, 2)] p"

text \<open>
  The three assignments \<^verbatim>\<open>p.at<double>(i,3) = s * e.at<double>(i,0)\<close>, \<open>s\<close> the sign. In
  the third case the source goes on with \<^verbatim>\<open>p.col(3) = e\<close>, which assigns to a temporary
  matrix header and leaves \<^verbatim>\<open>p\<close> as it is.
\<close>

definition assign_translation :: "matrix \<Rightarrow> real \<Rightarrow> matrix \<Rightarrow> matrix" where
  "assign_translation p s e =
     fold (\<lambda>i q. set_at q i 3 (s * at_double e i 0)) [0, 1, 2] p"

definition findPFromF :: "cvSVD_call \<Rightarrow> triangulate_call \<Rightarrow> Mat \<Rightarrow> matrix \<Rightarrow> matrix \<Rightarrow> Mat" where
  "findPFromF cvSVD cv_triangulatePoints fundamentalMatrix x1 x2 =
     (if rows fundamentalMatrix \<noteq> 3 \<or> cols fundamentalMatrix \<noteq> 3 then empty_Mat
      else if mtype fundamentalMatrix \<noteq> CV_64FC1 then empty_Mat
      else
        let p = zeros 3 4;
            p0 = set_at (set_at (set_at (zeros 3 4) 0 0 1) 1 1 1) 2 2 1;
            (s, u, v) = cvSVD (elems fundamentalMatrix);
            u = mat_t u;
            v = mat_t v;
            e = col u 2;
            skew = set_at (set_at (set_at (zeros 3 3) 0 1 (- 1)) 1 0 1) 2 2 1;
            x' = col x1 0;
            xp = col x2 0;
            r = mat_mul (mat_mul u skew) (mat_t v);
            p = assign_translation (assign_rotation p r) 1 e
        in if behind_a_camera cv_triangulatePoints p0 p x' xp
           then
             let p = assign_translation p (- 1) e
             in if behind_a_camera cv_triangulatePoints p0 p x' xp
                then
                  let r = mat_mul (mat_mul u (mat_t skew)) (mat_t v);
                      p = assign_translation (assign_rotation p r) 1 e
                  in if behind_a_camera cv_triangulatePoints p0 p x' xp
                     then Mat64 (assign_translation p (- 1) e)
                     else Mat64 p
                else Mat64 p
           else Mat64 p)"

text \<open>
  \<^verbatim>\<open>findRTFromP\<close> returns through its output arguments \<^verbatim>\<open>r\<close> and \<^verbatim>\<open>t\<close>, whose old values it
  does not read.
\<close>

definition findRTFromP :: "Mat \<Rightarrow> error + Mat \<times> Mat" where
  "findRTFromP p =
     (if \<not> (cols p = 4 \<and> rows p = 3) then Inl AssertionFailed
      else
        let r = submat (elems p) 0 3 0 3;
            r = mat_neg (mat_inv r);
            t = mat_mul r (col (elems p) 3)
        in Inr (\<lparr>mtype = mtype p, elems = r\<rparr>, \<lparr>mtype = mtype p, elems = t\<rparr>))"

subsection \<open>Calibrated stereo fundamental matrix\<close>

definition findFFromCalibratedStereoCameras ::
  "real \<Rightarrow> real \<Rightarrow> real \<Rightarrow> real \<Rightarrow> real \<Rightarrow> real \<Rightarrow> Mat" where
  "findFFromCalibratedStereoCameras fx fy cx cy Tx Ty =
     (let R = eye3;
          Bx = Tx / - fx;
          By = Ty / - fy;
          tx = [[0, 0, By],
                [0, 0, - Bx],
                [- By, Bx, 0]];
          K = [[fx, 0, cx],
               [0, fy, cy],
               [0, 0, 1]];
          E = mat_mul tx R
      in Mat64 (mat_mul (mat_mul (mat_t (mat_inv K)) E) (mat_inv K)))"

subsection \<open>Triangulation engine\<close>

text \<open>\<^verbatim>\<open>solve(A, B, X, cv::DECOMP_SVD)\<close> is a parameter giving \<^verbatim>\<open>X\<close>, a 3\<times>1 matrix.\<close>

type_synonym solve_call = "matrix \<Rightarrow> matrix \<Rightarrow> matrix"

definition linearLSTriangulation ::
  "solve_call \<Rightarrow> Point3d \<Rightarrow> matrix \<Rightarrow> Point3d \<Rightarrow> matrix \<Rightarrow> matrix" where
  "linearLSTriangulation solve u P u1 P1 =
     (let A = [[p3x u * at_double P 2 0 - at_double P 0 0,
                p3x u * at_double P 2 1 - at_double P 0 1,
                p3x u * at_double P 2 2 - at_double P 0 2],
               [p3y u * at_double P 2 0 - at_double P 1 0,
                p3y u * at_double P 2 1 - at_double P 1 1,
                p3y u * at_double P 2 2 - at_double P 1 2],
               [p3x u1 * at_double P1 2 0 - at_double P1 0 0,
                p3x u1 * at_double P1 2 1 - at_double P1 0 1,
                p3x u1 * at_double P1 2 2 - at_double P1 0 2],
               [p3y u1 * at_double P1 2 0 - at_double P1 1 0,
                p3y u1 * at_double P1 2 1 - at_double P1 1 1,
                p3y u1 * at_double P1 2 2 - at_double P1 1 2]];
          B = [[- (p3x u * at_double P 2 3 - at_double P 0 3)],
               [- (p3y u * at_double P 2 3 - at_double P 1 3)],
               [- (p3x u1 * at_double P1 2 3 - at_double P1 0 3)],
               [- (p3y u1 * at_double P1 2 3 - at_double P1 1 3)]]
      in solve A B)"

definition EPSILON :: real where
  "EPSILON = 0.0001"

text \<open>
  The system of one reweighting pass: the equations of \<^verbatim>\<open>linearLSTriangulation\<close>, the first
  two divided by \<^verbatim>\<open>wi\<close> and the last two by \<^verbatim>\<open>wi1\<close>.
\<close>

definition reweighted_solve ::
  "solve_call \<Rightarrow> Point3d \<Rightarrow> matrix \<Rightarrow> Point3d \<Rightarrow> matrix \<Rightarrow> real \<Rightarrow> real \<Rightarrow> matrix" where
  "reweighted_solve solve u P u1 P1 wi wi1 =
     (let A = [[(p3x u * at_double P 2 0 - at_double P 0 0) / wi,
                (p3x u * at_double P 2 1 - at_double P 0 1) / wi,
                (p3x u * at_double P 2 2 - at_double P 0 2) / wi],
               [(p3y u * at_double P 2 0 - at_double P 1 0) / wi,
                (p3y u * at_double P 2 1 - at_double P 1 1) / wi,
                (p3y u * at_double P 2 2 - at_double P 1 2) / wi],
               [(p3x u1 * at_double P1 2 0 - at_double P1 0 0) / wi1,
                (p3x u1 * at_double P1 2 1 - at_double P1 0 1) / wi1,
                (p3x u1 * at_double P1 2 2 - at_double P1 0 2) / wi1],
               [(p3y u1 * at_double P1 2 0 - at_double P1 1 0) / wi1,
                (p3y u1 * at_double P1 2 1 - at_double P1 1 1) / wi1,
                (p3y u1 * at_double P1 2 2 - at_double P1 1 2) / wi1]];
          B = [[- (p3x u * at_double P 2 3 - at_double P 0 3) / wi],
               [- (p3y u * at_double P 2 3 - at_double P 1 3) / wi],
               [- (p3x u1 * at_double P1 2 3 - at_double P1 0 3) / wi1],
               [- (p3y u1 * at_double P1 2 3 - at_double P1 1 3) / wi1]]
      in solve A B)"

text \<open>
  \<^verbatim>\<open>X(0) = X_(0); X(1) = X_(1); X(2) = X_(2); X_(3) = 1.0;\<close> copies three entries of the
  solution into the 4\<times>1 matrix \<^verbatim>\<open>X\<close>. The fourth assignment goes to \<^verbatim>\<open>X_\<close>, which is
  overwritten or dropped before it is read again, so the fourth entry of \<^verbatim>\<open>X\<close> keeps what
  it held.
\<close>

definition copy_solution :: "matrix \<Rightarrow> matrix \<Rightarrow> matrix" where
  "copy_solution X X' =
     set_at (set_at (set_at X 0 0 (at_double X' 0 0)) 1 0 (at_double X' 1 0)) 2 0 (at_double X' 2 0)"

text \<open>
  What the loop leaves behind: the estimate, the two weights, and a log with one entry per
  reweighting pass (a turn of the loop that went on to solve again), holding the estimate
  and the weights the pass began with and the depth components \<^verbatim>\<open>p2x\<close>, \<^verbatim>\<open>p2x1\<close> computed
  in it.
\<close>

record reweighting_pass =
  estimate :: matrix
  old_wi :: real
  old_wi1 :: real
  new_p2x :: real
  new_p2x1 :: real

record loop_result =
  final_X :: matrix
  final_wi :: real
  final_wi1 :: real
  passes :: "reweighting_pass list"

function iterativeLinearLSTriangulation_loop ::
  "solve_call \<Rightarrow> Point3d \<Rightarrow> matrix \<Rightarrow> Point3d \<Rightarrow> matrix
    \<Rightarrow> nat \<Rightarrow> real \<Rightarrow> real \<Rightarrow> matrix \<Rightarrow> loop_result" where
  "iterativeLinearLSTriangulation_loop solve u P u1 P1 i wi wi1 X =
     (if i < 10 then
        let p2x = at_double (mat_mul [P ! 2] X) 0 0;
            p2x1 = at_double (mat_mul [P1 ! 2] X) 0 0
        in if \<bar>wi - p2x\<bar> \<le> EPSILON \<and> \<bar>wi1 - p2x1\<bar> \<le> EPSILON
           then \<lparr>final_X = X, final_wi = wi, final_wi1 = wi1, passes = []\<rparr>
           else
             let X' = reweighted_solve solve u P u1 P1 p2x p2x1;
                 rest = iterativeLinearLSTriangulation_loop solve u P u1 P1 (i + 1) p2x p2x1
                          (copy_solution X X')
             in rest\<lparr>passes :=
                  \<lparr>estimate = X, old_wi = wi, old_wi1 = wi1, new_p2x = p2x, new_p2x1 = p2x1\<rparr>
                  # passes rest\<rparr>
      else \<lparr>final_X = X, final_wi = wi, final_wi1 = wi1, passes = []\<rparr>)"
  by pat_completeness auto
termination
  by (relation "measure (\<lambda>(solve, u, P, u1, P1, i, wi, wi1, X). 10 - i)") auto

declare iterativeLinearLSTriangulation_loop.simps [simp del]

text \<open>
  \<^verbatim>\<open>cv::Mat_<double> X(4,1)\<close> is allocated and not initialised: \<open>X0\<close> is what the fresh
  matrix holds.
\<close>

definition iterativeLinearLSTriangulation_run ::
  "solve_call \<Rightarrow> matrix \<Rightarrow> Point3d \<Rightarrow> matrix \<Rightarrow> Point3d \<Rightarrow> matrix \<Rightarrow> loop_result" where
  "iterativeLinearLSTriangulation_run solve X0 u P u1 P1 =
     (let wi = 1;
          wi1 = 1;
          X' = linearLSTriangulation solve u P u1 P1;
          X = copy_solution X0 X'
      in iterativeLinearLSTriangulation_loop solve u P u1 P1 0 wi wi1 X)"

definition iterativeLinearLSTriangulation ::
  "solve_call \<Rightarrow> matrix \<Rightarrow> Point3d \<Rightarrow> matrix \<Rightarrow> Point3d \<Rightarrow> matrix \<Rightarrow> matrix" where
  "iterativeLinearLSTriangulation solve X0 u P u1 P1 =
     final_X (iterativeLinearLSTriangulation_run solve X0 u P u1 P1)"

definition norm_Point2f :: "Point2f \<Rightarrow> real" where
  "norm_Point2f p = sqrt (px p * px p + py p * py p)"

definition minus_Point2f :: "Point2f \<Rightarrow> Point2f \<Rightarrow> Point2f" where
  "minus_Point2f a b = Point2f (px a - px b) (py a - py b)"

definition cv_mean :: "real list \<Rightarrow> real" where
  "cv_mean xs = sum_list xs / real (length xs)"

text \<open>
  One turn of the loop of \<^verbatim>\<open>triangulatePoints\<close>: the residual and the point stored at index
  \<open>i\<close>. \<open>fresh i\<close> is the uninitialised matrix the \<open>i\<close>-th triangulation starts from.
\<close>

definition triangulatePoints_at ::
  "solve_call \<Rightarrow> (nat \<Rightarrow> matrix) \<Rightarrow> Point2f list \<Rightarrow> Point2f list \<Rightarrow> matrix \<Rightarrow> matrix
    \<Rightarrow> nat \<Rightarrow> real \<times> PointXYZ" where
  "triangulatePoints_at solve fresh pt_set1 pt_set2 P P1 i =
     (let u = Point3d (px (pt_set1 ! i)) (py (pt_set1 ! i)) 1;
          u1 = Point3d (px (pt_set2 ! i)) (py (pt_set2 ! i)) 1;
          X = iterativeLinearLSTriangulation solve (fresh i) u P u1 P1;
          xPt_img = mat_mul P1 X;
          xPt_img' = Point2f (at_double xPt_img 0 0 / at_double xPt_img 2 0)
                             (at_double xPt_img 1 0 / at_double xPt_img 2 0);
          reprj_err = norm_Point2f (minus_Point2f xPt_img' (pt_set1 ! i))
      in (reprj_err, PointXYZ (at_double X 0 0) (at_double X 1 0) (at_double X 2 0)))"

text \<open>The returned mean, with the output arguments \<^verbatim>\<open>pointcloud\<close> and \<^verbatim>\<open>reproj_errors\<close>.\<close>

definition triangulatePoints ::
  "solve_call \<Rightarrow> (nat \<Rightarrow> matrix) \<Rightarrow> Point2f list \<Rightarrow> Point2f list \<Rightarrow> matrix \<Rightarrow> matrix
    \<Rightarrow> real \<times> PointXYZ list \<times> real list" where
  "triangulatePoints solve fresh pt_set1 pt_set2 P P1 =
     (let pts_size = length pt_set1;
          results = map (triangulatePoints_at solve fresh pt_set1 pt_set2 P P1) [0..<pts_size];
          pointcloud = map snd results;
          reproj_errors = map fst results
      in (cv_mean reproj_errors, pointcloud, reproj_errors))"

subsection \<open>Notions used to state the properties\<close>

text \<open>The mapping without the keypoints of one label.\<close>

definition erase_label :: "int \<Rightarrow> 'v multimap \<Rightarrow> 'v multimap" where
  "erase_label l mm = filter (\<lambda>e. fst e \<noteq> l) mm"

text \<open>What one label adds to the output list and to the count of \<^verbatim>\<open>findPairsUnique\<close>.\<close>

definition emitted :: "KeyPoint multimap \<Rightarrow> KeyPoint multimap \<Rightarrow> int \<Rightarrow> correspondence list" where
  "emitted A B i =
     (if length (uValues A i) = 1 \<and> length (uValues B i) = 1
      then [(i, (hd (uValues A i), hd (uValues B i)))] else [])"

definition counted :: "KeyPoint multimap \<Rightarrow> KeyPoint multimap \<Rightarrow> int \<Rightarrow> int" where
  "counted A B i =
     (if length (uValues A i) = 1 \<and> length (uValues B i) = 1 then 1
      else if length (uValues A i) > 1 \<and> length (uValues B i) > 1
      then int (min (length (uValues A i)) (length (uValues B i))) else 0)"

definition no_duplicate_labels :: "'v multimap \<Rightarrow> bool" where
  "no_duplicate_labels mm = distinct (map fst mm)"

text \<open>
  The arguments \<^verbatim>\<open>findFFromWords\<close> builds for the library from a correspondence list, and
  what the library answers to them.
\<close>

definition points_of :: "correspondence list \<Rightarrow> Point2f list \<times> Point2f list" where
  "points_of pairs = (map (\<lambda>c. pt (fst (snd c))) pairs, map (\<lambda>c. pt (snd (snd c))) pairs)"

definition fit_of ::
  "fundamental_fit \<Rightarrow> EpipolarGeometry \<Rightarrow> correspondence list \<Rightarrow> Mat \<times> uchar list" where
  "fit_of findFundamentalMat this pairs =
     findFundamentalMat (fst (points_of pairs)) (snd (points_of pairs))
       (replicate (length pairs) 0) (ransacParam1 this) (ransacParam2 this)"

text \<open>
  The depth component of an estimate in a view: the third row of the projection matrix
  times the estimate.
\<close>

definition depth_component :: "matrix \<Rightarrow> matrix \<Rightarrow> real" where
  "depth_component P X = at_double (mat_mul [P ! 2] X) 0 0"

text \<open>Both weights moved by at most \<open>EPSILON\<close>.\<close>

definition weights_settled :: "real \<Rightarrow> real \<Rightarrow> real \<Rightarrow> real \<Rightarrow> bool" where
  "weights_settled wi wi1 p2x p2x1 \<longleftrightarrow> \<bar>wi - p2x\<bar> \<le> EPSILON \<and> \<bar>wi1 - p2x1\<bar> \<le> EPSILON"


subsection \<open>Example inputs\<close>

definition kp :: "real \<Rightarrow> real \<Rightarrow> KeyPoint" where
  "kp a b = \<lparr>pt = Point2f a b, kp_size = 1, angle = 0, response = 0, octave = 0, class_id = 0\<rparr>"

text \<open>The labels of the example in the source's comments: a = [1 2 3 4 6 6], b = [1 1 2 4 5 6 6].\<close>

definition wordsA_example :: "KeyPoint multimap" where
  "wordsA_example =
     [(1, kp 10 10), (2, kp 20 20), (3, kp 30 30), (4, kp 40 40), (6, kp 60 60), (6, kp 61 61)]"

definition wordsB_example :: "KeyPoint multimap" where
  "wordsB_example =
     [(1, kp 11 10), (1, kp 12 10), (2, kp 21 20), (4, kp 41 40), (5, kp 51 50),
      (6, kp 62 60), (6, kp 63 61)]"

definition wordsA_distinct :: "KeyPoint multimap" where
  "wordsA_distinct = [(1, kp 10 10), (2, kp 20 20), (3, kp 30 30), (4, kp 40 40)]"

definition wordsB_distinct :: "KeyPoint multimap" where
  "wordsB_distinct = [(2, kp 21 20), (4, kp 41 40), (5, kp 51 50)]"

text \<open>A stand-in for the library's fit that reports every correspondence as an inlier.\<close>

definition all_inliers_fit :: fundamental_fit where
  "all_inliers_fit points1 points2 status param1 param2 =
     (Mat64 [[0, 0, 0], [0, 0, - 1], [0, 1, 0]], map (\<lambda>_. 1) status)"

definition signature_example_A :: Signature where
  "signature_example_A = \<lparr>sig_id = 1, getWords = wordsA_example\<rparr>"

definition signature_example_B :: Signature where
  "signature_example_B = \<lparr>sig_id = 2, getWords = wordsB_example\<rparr>"

definition facade_example :: "int \<Rightarrow> EpipolarGeometry" where
  "facade_example n = \<lparr>matchCountMinAccepted = n, ransacParam1 = 3, ransacParam2 = 0.99\<rparr>"

text \<open>
  Two cameras one unit apart along the first axis, and the point \<open>(0, 0, 2)\<close> seen at
  \<open>(0, 0)\<close> by the first and at \<open>(1/2, 0)\<close> by the second. The equations of both the plain and
  the reweighted system hold exactly at \<open>(0, 0, 2)\<close>, which \<open>solve_depth2\<close> returns.
  \<open>fresh_example\<close> is a fresh matrix that happens to hold 1 in its fourth entry.
\<close>

definition camera_A :: matrix where
  "camera_A = [[1, 0, 0, 0], [0, 1, 0, 0], [0, 0, 1, 0]]"

definition camera_B :: matrix where
  "camera_B = [[1, 0, 0, 1], [0, 1, 0, 0], [0, 0, 1, 0]]"

definition fresh_example :: matrix where
  "fresh_example = [[0], [0], [0], [1]]"


text \<open>
  A singular value decomposition as \<^verbatim>\<open>cv::SVD\<close> stores it: \<open>m = u \<cdot> diag(w) \<cdot> vt\<close> with \<open>u\<close> and
  \<open>vt\<close> orthogonal and the three singular values, a column, non-negative and descending.
  The right factor \<open>V\<close> of \<open>m = U \<cdot> S \<cdot> V\<^sup>t\<close> is the transpose of \<open>vt\<close>.
\<close>

definition diag3 :: "matrix \<Rightarrow> matrix" where
  "diag3 w = [[at_double w 0 0, 0, 0], [0, at_double w 1 0, 0], [0, 0, at_double w 2 0]]"

definition is_SVD :: "matrix \<Rightarrow> SVD \<Rightarrow> bool" where
  "is_SVD m s \<longleftrightarrow>
     mat_mul (mat_mul (svd_u s) (diag3 (svd_w s))) (svd_vt s) = m \<and>
     mat_mul (mat_t (svd_u s)) (svd_u s) = eye3 \<and>
     mat_mul (svd_vt s) (mat_t (svd_vt s)) = eye3 \<and>
     at_double (svd_w s) 0 0 \<ge> at_double (svd_w s) 1 0 \<and>
     at_double (svd_w s) 1 0 \<ge> at_double (svd_w s) 2 0 \<and>
     at_double (svd_w s) 2 0 \<ge> 0"

definition last_column :: "matrix \<Rightarrow> Vec3d" where
  "last_column m = Vec3d (at_double m 0 2) (at_double m 1 2) (at_double m 2 2)"

text \<open>
  A matrix of rank 2 with singular values 2, 1, 0, and its decomposition. The singular
  values being distinct, the decomposition is unique up to the signs of the singular
  vectors.
\<close>

definition fundamental_example :: Mat where
  "fundamental_example = Mat64 [[0, 2, 0], [0, 0, 1], [0, 0, 0]]"

definition svd_example :: "matrix \<Rightarrow> SVD" where
  "svd_example m =
     \<lparr>svd_u = [[1, 0, 0], [0, 1, 0], [0, 0, 1]],
      svd_w = [[2], [1], [0]],
      svd_vt = [[0, 1, 0], [0, 0, 1], [1, 0, 0]]\<rparr>"

definition two_by_three :: Mat where
  "two_by_three = Mat64 [[1, 0, 0], [0, 1, 0]]"

text \<open>A 3\<times>3 matrix of floats: type code \<^verbatim>\<open>CV_32FC1\<close> = 5.\<close>

definition float_matrix :: Mat where
  "float_matrix = \<lparr>mtype = 5, elems = [[0, 0, 0], [0, 0, - 1], [0, 1, 0]]\<rparr>"

text \<open>Every row of the matrix has as many elements as the first.\<close>

definition well_formed :: "Mat \<Rightarrow> bool" where
  "well_formed m = list_all (\<lambda>r. length r = cols m) (elems m)"

text \<open>The left 3\<times>3 block of a projection matrix.\<close>

definition left_block :: "Mat \<Rightarrow> matrix" where
  "left_block p = submat (elems p) 0 3 0 3"

text \<open>The matrix of the cross product with \<open>(a, b, c)\<close>, and the intrinsics matrix.\<close>

definition skew_symmetric :: "real \<Rightarrow> real \<Rightarrow> real \<Rightarrow> matrix" where
  "skew_symmetric a b c = [[0, - c, b], [c, 0, - a], [- b, a, 0]]"

definition intrinsics :: "real \<Rightarrow> real \<Rightarrow> real \<Rightarrow> real \<Rightarrow> matrix" where
  "intrinsics fx fy cx cy = [[fx, 0, cx], [0, fy, cy], [0, 0, 1]]"

definition projection_example :: Mat where
  "projection_example = Mat64 [[1, 1, 0, 1], [0, 1, 0, 2], [0, 0, 1, 3]]"

text \<open>
  The four candidate projection matrices \<open>[R | t]\<close> in the order of the claim, from the
  factors \<open>U\<close> and \<open>V\<close> of the decomposition, and the test a candidate passes.

  The depth of a homogeneous point \<open>(X, Y, Z, w)\<close> in a camera \<open>p\<close> is the third coordinate of
  \<open>p\<close> times the point divided by \<open>w\<close>, written out entry by entry: the third row of \<open>p\<close>
  against \<open>(X / w, Y / w, Z / w, w / w)\<close>. For \<open>w\<close> other than 0 this is
  \<open>(p\<^sub>2\<^sub>0 X + p\<^sub>2\<^sub>1 Y + p\<^sub>2\<^sub>2 Z) / w + p\<^sub>2\<^sub>3\<close>, and \<open>Z / w\<close> in the reference camera. A
  candidate passes when the triangulated sample point has non-negative depth in the
  reference camera and in the candidate.
\<close>

definition hcat :: "matrix \<Rightarrow> matrix \<Rightarrow> matrix" where
  "hcat r t = map2 (@) r t"

definition W_matrix :: matrix where
  "W_matrix = [[0, - 1, 0], [1, 0, 0], [0, 0, 1]]"

definition P0_matrix :: matrix where
  "P0_matrix = [[1, 0, 0, 0], [0, 1, 0, 0], [0, 0, 1, 0]]"

definition is_3x3 :: "matrix \<Rightarrow> bool" where
  "is_3x3 m \<longleftrightarrow> length m = 3 \<and> list_all (\<lambda>r. length r = 3) m"

definition candidates :: "matrix \<Rightarrow> matrix \<Rightarrow> matrix list" where
  "candidates U V =
     (let e = col U 2;
          R1 = mat_mul (mat_mul U W_matrix) (mat_t V);
          R2 = mat_mul (mat_mul U (mat_t W_matrix)) (mat_t V)
      in [hcat R1 e, hcat R1 (mat_neg e), hcat R2 e, hcat R2 (mat_neg e)])"

definition depth_in :: "matrix \<Rightarrow> matrix \<Rightarrow> real" where
  "depth_in p x4d =
     (let w = x4d ! 3 ! 0
      in p ! 2 ! 0 * (x4d ! 0 ! 0 / w) + p ! 2 ! 1 * (x4d ! 1 ! 0 / w) +
         p ! 2 ! 2 * (x4d ! 2 ! 0 / w) + p ! 2 ! 3 * (w / w))"

definition in_front_of_both ::
  "triangulate_call \<Rightarrow> matrix \<Rightarrow> matrix \<Rightarrow> matrix \<Rightarrow> bool" where
  "in_front_of_both cv_triangulatePoints x' xp p \<longleftrightarrow>
     0 \<le> depth_in P0_matrix (cv_triangulatePoints P0_matrix p x' xp) \<and>
     0 \<le> depth_in p (cv_triangulatePoints P0_matrix p x' xp)"

definition first_or_last :: "('a \<Rightarrow> bool) \<Rightarrow> 'a list \<Rightarrow> 'a" where
  "first_or_last ok cs = (case find ok cs of Some c \<Rightarrow> c | None \<Rightarrow> last cs)"

text \<open>
  What \<^verbatim>\<open>cvSVD\<close> with the two transposition flags stores for \<open>fundamental_example\<close>, and two
  stand-ins for the library's triangulation, both with fourth coordinate \<open>- 1\<close>: one whose
  point, once divided, is in front of both cameras for the second candidate only, one
  whose point, once divided, is behind the reference camera. Before the division the third
  coordinates have the opposite signs.
\<close>

definition cvSVD_example :: cvSVD_call where
  "cvSVD_example m =
     ([[2, 0, 0], [0, 1, 0], [0, 0, 0]],
      [[1, 0, 0], [0, 1, 0], [0, 0, 1]],
      [[0, 1, 0], [0, 0, 1], [1, 0, 0]])"

definition triangulate_second :: triangulate_call where
  "triangulate_second p0 p x' xp = [[2 * at_double p 2 3], [0], [- 1], [- 1]]"

definition triangulate_behind :: triangulate_call where
  "triangulate_behind p0 p x' xp = [[0], [0], [1], [- 1]]"

text \<open>
  The projection of an estimate into the second view, divided by its third coordinate; the
  distance of two image points; the estimate \<^verbatim>\<open>triangulatePoints\<close> computes at index \<open>i\<close>.
\<close>

definition reproject :: "matrix \<Rightarrow> matrix \<Rightarrow> Point2f" where
  "reproject P1 X =
     Point2f (at_double (mat_mul P1 X) 0 0 / at_double (mat_mul P1 X) 2 0)
             (at_double (mat_mul P1 X) 1 0 / at_double (mat_mul P1 X) 2 0)"

definition distance :: "Point2f \<Rightarrow> Point2f \<Rightarrow> real" where
  "distance a b = sqrt ((px a - px b)\<^sup>2 + (py a - py b)\<^sup>2)"

definition triangulated ::
  "solve_call \<Rightarrow> (nat \<Rightarrow> matrix) \<Rightarrow> Point2f list \<Rightarrow> Point2f list \<Rightarrow> matrix \<Rightarrow> matrix
    \<Rightarrow> nat \<Rightarrow> matrix" where
  "triangulated solve fresh pt_set1 pt_set2 P P1 i =
     iterativeLinearLSTriangulation solve (fresh i)
       (Point3d (px (pt_set1 ! i)) (py (pt_set1 ! i)) 1) P
       (Point3d (px (pt_set2 ! i)) (py (pt_set2 ! i)) 1) P1"

text \<open>
  The point \<open>(0, 0, 1)\<close> seen at \<open>(0, 0)\<close> by \<open>camera_A\<close> and at \<open>(1, 0)\<close> by \<open>camera_B\<close>; the
  equations of the linear system hold exactly at \<open>(0, 0, 1)\<close>, which \<open>solve_depth1\<close> returns.
\<close>

definition solve_depth1 :: solve_call where
  "solve_depth1 A B = [[0], [0], [1]]"

section \<open>Properties\<close>

subsection \<open>Correspondence matcher\<close>

lemma findPairsUnique_step_eq:
  "findPairsUnique_step A B i st = (fst st @ emitted A B i, snd st + counted A B i)"
  by (auto simp: findPairsUnique_step_def emitted_def counted_def Let_def min_def)

lemma fold_findPairsUnique_step:
  "fold (findPairsUnique_step A B) ids st =
     (fst st @ concat (map (emitted A B) ids), snd st + sum_list (map (counted A B) ids))"
  by (induction ids arbitrary: st) (simp_all add: findPairsUnique_step_eq algebra_simps)

lemma distinct_uUniqueKeys: "distinct (uUniqueKeys mm)"
  by (simp add: uUniqueKeys_def)

lemma sorted_uUniqueKeys: "sorted (uUniqueKeys mm)"
  by (simp add: uUniqueKeys_def)

lemma set_uUniqueKeys: "set (uUniqueKeys mm) = fst ` set mm"
  by (simp add: uUniqueKeys_def)

lemma uValues_nonempty_iff: "uValues mm l \<noteq> [] \<longleftrightarrow> l \<in> set (uUniqueKeys mm)"
  by (auto simp: uValues_def set_uUniqueKeys filter_empty_conv image_iff)

lemma uValues_erase_label:
  "uValues (erase_label l mm) k = (if k = l then [] else uValues mm k)"
  by (induction mm) (auto simp: uValues_def erase_label_def)

lemma uUniqueKeys_erase_label:
  "uUniqueKeys (erase_label l mm) = filter (\<lambda>k. k \<noteq> l) (uUniqueKeys mm)"
proof -
  have "map fst (filter (\<lambda>e. fst e \<noteq> l) mm) = filter (\<lambda>k. k \<noteq> l) (map fst mm)"
    by (induction mm) auto
  then show ?thesis
    by (simp add: uUniqueKeys_def erase_label_def remdups_filter filter_sort)
qed

lemma label_of_emitted: "c \<in> set (emitted A B i) \<Longrightarrow> fst c = i"
  by (auto simp: emitted_def split: if_splits)

lemma filter_emitted_absent:
  "l \<notin> set ids \<Longrightarrow> filter (\<lambda>c. fst c = l) (concat (map (emitted A B) ids)) = []"
  by (induction ids) (auto simp: filter_empty_conv dest: label_of_emitted)

lemma filter_emitted_present:
  "distinct ids \<Longrightarrow> l \<in> set ids \<Longrightarrow>
   filter (\<lambda>c. fst c = l) (concat (map (emitted A B) ids)) = emitted A B l"
proof (induction ids)
  case Nil
  then show ?case by simp
next
  case (Cons i ids)
  show ?case
  proof (cases "i = l")
    case True
    then have "l \<notin> set ids" using Cons.prems by simp
    then have "filter (\<lambda>c. fst c = l) (concat (map (emitted A B) ids)) = []"
      by (rule filter_emitted_absent)
    moreover have "filter (\<lambda>c. fst c = l) (emitted A B l) = emitted A B l"
      by (simp add: emitted_def)
    ultimately show ?thesis using True by simp
  next
    case False
    then have "filter (\<lambda>c. fst c = l) (emitted A B i) = []"
      by (auto simp: filter_empty_conv dest: label_of_emitted)
    then show ?thesis using False Cons by simp
  qed
qed

lemma concat_emitted_skip:
  "emitted A B l = [] \<Longrightarrow>
   concat (map (emitted A B) (filter (\<lambda>k. k \<noteq> l) ids)) = concat (map (emitted A B) ids)"
  by (induction ids) auto

lemma sum_counted_split:
  "distinct ids \<Longrightarrow> l \<in> set ids \<Longrightarrow>
   sum_list (map (counted A B) ids) =
     sum_list (map (counted A B) (filter (\<lambda>k. k \<noteq> l) ids)) + counted A B l"
proof (induction ids)
  case Nil
  then show ?case by simp
next
  case (Cons i ids)
  show ?case
  proof (cases "i = l")
    case True
    then have "l \<notin> set ids" using Cons.prems by simp
    then have "filter (\<lambda>k. k \<noteq> l) ids = ids" by (simp add: filter_id_conv) blast
    then show ?thesis using True by simp
  next
    case False
    then show ?thesis using Cons by simp
  qed
qed

lemma findPairsUnique_erase_label:
  "findPairsUnique (erase_label l A) (erase_label l B) =
     (concat (map (emitted A B) (filter (\<lambda>k. k \<noteq> l) (uUniqueKeys A))),
      sum_list (map (counted A B) (filter (\<lambda>k. k \<noteq> l) (uUniqueKeys A))))"
proof -
  have e: "map (emitted (erase_label l A) (erase_label l B)) (filter (\<lambda>k. k \<noteq> l) ids) =
      map (emitted A B) (filter (\<lambda>k. k \<noteq> l) ids)" for ids
    by (rule map_cong) (auto simp: emitted_def uValues_erase_label)
  have c: "map (counted (erase_label l A) (erase_label l B)) (filter (\<lambda>k. k \<noteq> l) ids) =
      map (counted A B) (filter (\<lambda>k. k \<noteq> l) ids)" for ids
    by (rule map_cong) (auto simp: counted_def uValues_erase_label)
  show ?thesis
    by (simp add: findPairsUnique_def fold_findPairsUnique_step uUniqueKeys_erase_label e c)
qed

lemma uUniqueKeys_wordsA_example: "uUniqueKeys wordsA_example = [1, 2, 3, 4, 6]"
  by (simp add: uUniqueKeys_def wordsA_example_def)

lemma findPairsUnique_example:
  "findPairsUnique wordsA_example wordsB_example =
     ([(2, (kp 20 20, kp 21 20)), (4, (kp 40 40, kp 41 40))], 4)"
  by (simp add: findPairsUnique_def uUniqueKeys_wordsA_example)
     (simp add: findPairsUnique_step_def uValues_def wordsA_example_def wordsB_example_def)

text \<open>
  Claim C8. Take any two label-to-keypoint mappings and a label \<open>l\<close>. If \<open>l\<close> has at least
  two keypoints in both mappings, \<^verbatim>\<open>findPairsUnique\<close> emits no correspondence with label
  \<open>l\<close>: its output list is the one it gives on the mappings without \<open>l\<close>, and the returned
  count is the count on the mappings without \<open>l\<close> plus the smaller of the two multiplicities.
  If \<open>l\<close> has exactly one keypoint \<open>a\<close> in the first mapping and exactly one keypoint \<open>b\<close>
  in the second, the output holds exactly one correspondence with label \<open>l\<close>, namely
  \<open>(l, a, b)\<close>, and \<open>l\<close> adds one to the count.
\<close>

theorem findPairsUnique_duplicate_labels:
  fixes A B :: "KeyPoint multimap"
  shows "(2 \<le> length (uValues A l) \<and> 2 \<le> length (uValues B l) \<longrightarrow>
            filter (\<lambda>c. fst c = l) (fst (findPairsUnique A B)) = [] \<and>
            fst (findPairsUnique A B) = fst (findPairsUnique (erase_label l A) (erase_label l B)) \<and>
            snd (findPairsUnique A B) =
              snd (findPairsUnique (erase_label l A) (erase_label l B)) +
              int (min (length (uValues A l)) (length (uValues B l)))) \<and>
         (uValues A l = [a] \<and> uValues B l = [b] \<longrightarrow>
            filter (\<lambda>c. fst c = l) (fst (findPairsUnique A B)) = [(l, (a, b))] \<and>
            snd (findPairsUnique A B) =
              snd (findPairsUnique (erase_label l A) (erase_label l B)) + 1)"
proof (intro conjI impI)
  assume h: "2 \<le> length (uValues A l) \<and> 2 \<le> length (uValues B l)"
  then have "uValues A l \<noteq> []" by auto
  then have mem: "l \<in> set (uUniqueKeys A)" by (simp add: uValues_nonempty_iff)
  have e: "emitted A B l = []" using h by (simp add: emitted_def)
  have c: "counted A B l = int (min (length (uValues A l)) (length (uValues B l)))"
    using h by (simp add: counted_def)
  show "filter (\<lambda>c. fst c = l) (fst (findPairsUnique A B)) = []"
    using filter_emitted_present [OF distinct_uUniqueKeys mem, of A B] e
    by (simp add: findPairsUnique_def fold_findPairsUnique_step)
  show "fst (findPairsUnique A B) = fst (findPairsUnique (erase_label l A) (erase_label l B))"
    using concat_emitted_skip [OF e]
    by (simp add: findPairsUnique_erase_label)
       (simp add: findPairsUnique_def fold_findPairsUnique_step)
  show "snd (findPairsUnique A B) =
          snd (findPairsUnique (erase_label l A) (erase_label l B)) +
          int (min (length (uValues A l)) (length (uValues B l)))"
    using sum_counted_split [OF distinct_uUniqueKeys mem, of A B] c
    by (simp add: findPairsUnique_erase_label)
       (simp add: findPairsUnique_def fold_findPairsUnique_step)
next
  assume h: "uValues A l = [a] \<and> uValues B l = [b]"
  then have "uValues A l \<noteq> []" by auto
  then have mem: "l \<in> set (uUniqueKeys A)" by (simp add: uValues_nonempty_iff)
  have e: "emitted A B l = [(l, (a, b))]" using h by (simp add: emitted_def)
  have c: "counted A B l = 1" using h by (simp add: counted_def)
  show "filter (\<lambda>c. fst c = l) (fst (findPairsUnique A B)) = [(l, (a, b))]"
    using filter_emitted_present [OF distinct_uUniqueKeys mem, of A B] e
    by (simp add: findPairsUnique_def fold_findPairsUnique_step)
  show "snd (findPairsUnique A B) =
          snd (findPairsUnique (erase_label l A) (erase_label l B)) + 1"
    using sum_counted_split [OF distinct_uUniqueKeys mem, of A B] c
    by (simp add: findPairsUnique_erase_label)
       (simp add: findPairsUnique_def fold_findPairsUnique_step)
qed

text \<open>
  The theorem at the example of the source's comment: label 6 occurs twice on both sides,
  label 2 once on both sides.
\<close>

theorem findPairsUnique_duplicate_labels_witness:
  "2 \<le> length (uValues wordsA_example 6) \<and> 2 \<le> length (uValues wordsB_example 6) \<and>
   filter (\<lambda>c. fst c = 6) (fst (findPairsUnique wordsA_example wordsB_example)) = [] \<and>
   snd (findPairsUnique wordsA_example wordsB_example) =
     snd (findPairsUnique (erase_label 6 wordsA_example) (erase_label 6 wordsB_example)) + 2 \<and>
   uValues wordsA_example 2 = [kp 20 20] \<and> uValues wordsB_example 2 = [kp 21 20] \<and>
   filter (\<lambda>c. fst c = 2) (fst (findPairsUnique wordsA_example wordsB_example)) =
     [(2, (kp 20 20, kp 21 20))] \<and>
   snd (findPairsUnique wordsA_example wordsB_example) =
     snd (findPairsUnique (erase_label 2 wordsA_example) (erase_label 2 wordsB_example)) + 1"
proof -
  have six: "uValues wordsA_example 6 = [kp 60 60, kp 61 61]"
            "uValues wordsB_example 6 = [kp 62 60, kp 63 61]"
    by (simp_all add: uValues_def wordsA_example_def wordsB_example_def)
  have two: "uValues wordsA_example 2 = [kp 20 20]" "uValues wordsB_example 2 = [kp 21 20]"
    by (simp_all add: uValues_def wordsA_example_def wordsB_example_def)
  have d6: "2 \<le> length (uValues wordsA_example 6) \<and> 2 \<le> length (uValues wordsB_example 6)"
    by (simp add: six)
  have d2: "uValues wordsA_example 2 = [kp 20 20] \<and> uValues wordsB_example 2 = [kp 21 20]"
    by (simp add: two)
  note r6 = findPairsUnique_duplicate_labels
    [of wordsA_example 6 wordsB_example, THEN conjunct1, THEN mp, OF d6]
  note r2 = findPairsUnique_duplicate_labels
    [of wordsA_example 2 wordsB_example "kp 20 20" "kp 21 20", THEN conjunct2, THEN mp, OF d2]
  have c6: "snd (findPairsUnique wordsA_example wordsB_example) =
     snd (findPairsUnique (erase_label 6 wordsA_example) (erase_label 6 wordsB_example)) + 2"
    using r6 [THEN conjunct2, THEN conjunct2] by (simp add: six)
  from d6 d2 r6 [THEN conjunct1] c6 r2 show ?thesis
    by blast
qed

lemma uValues_at_most_one:
  "distinct (map fst mm) \<Longrightarrow> length (uValues mm k) \<le> 1"
proof (induction mm)
  case Nil
  then show ?case by (simp add: uValues_def)
next
  case (Cons e mm)
  show ?case
  proof (cases "fst e = k")
    case True
    then have "k \<notin> fst ` set mm" using Cons.prems by auto
    then have "filter (\<lambda>e. fst e = k) mm = []" by (auto simp: filter_empty_conv)
    then show ?thesis using True by (simp add: uValues_def)
  next
    case False
    then show ?thesis using Cons by (simp add: uValues_def)
  qed
qed

lemma concat_map_Nil: "concat (map (\<lambda>j. []) xs) = []"
  by (induction xs) simp_all

lemma steps_agree:
  assumes "length (uValues A i) \<le> 1" "length (uValues B i) \<le> 1"
  shows "findPairsUnique_step A B i st = findPairsAll_step A B i st"
proof -
  consider (both) a b where "uValues A i = [a]" "uValues B i = [b]"
    | (noA) "uValues A i = []" | (noB) "uValues B i = []"
    using assms by (cases "uValues A i"; cases "uValues B i") auto
  then show ?thesis
    by cases
       (simp_all add: findPairsUnique_step_def findPairsAll_step_def Let_def concat_map_Nil)
qed

text \<open>
  Claim C9. If no label occurs twice in the first mapping and none occurs twice in the
  second, \<^verbatim>\<open>findPairsUnique\<close> and \<^verbatim>\<open>findPairsAll\<close> return the same correspondence list and
  the same count, and the labels of that list are in ascending order.
\<close>

theorem findPairsUnique_eq_findPairsAll:
  assumes "no_duplicate_labels A" "no_duplicate_labels B"
  shows "findPairsUnique A B = findPairsAll A B \<and>
         sorted (map fst (fst (findPairsAll A B)))"
proof
  have "findPairsUnique_step A B i st = findPairsAll_step A B i st" for i st
    using assms
    by (intro steps_agree uValues_at_most_one) (simp_all add: no_duplicate_labels_def)
  then have "findPairsUnique_step A B = findPairsAll_step A B"
    by (intro ext)
  then have "fold (findPairsUnique_step A B) (uUniqueKeys A) ([], 0) =
             fold (findPairsAll_step A B) (uUniqueKeys A) ([], 0)"
    by simp
  then show eq: "findPairsUnique A B = findPairsAll A B"
    by (simp add: findPairsUnique_def findPairsAll_def)
  have "map fst (concat (map (emitted A B) ids)) = filter (\<lambda>i. emitted A B i \<noteq> []) ids" for ids
    by (induction ids) (auto simp: emitted_def)
  then have "sorted (map fst (fst (findPairsUnique A B)))"
    by (simp add: findPairsUnique_def fold_findPairsUnique_step sorted_uUniqueKeys
        sorted_wrt_filter)
  then show "sorted (map fst (fst (findPairsAll A B)))" using eq by simp
qed

theorem findPairsUnique_eq_findPairsAll_witness:
  "no_duplicate_labels wordsA_distinct \<and> no_duplicate_labels wordsB_distinct \<and>
   findPairsUnique wordsA_distinct wordsB_distinct = findPairsAll wordsA_distinct wordsB_distinct \<and>
   findPairsUnique wordsA_distinct wordsB_distinct =
     ([(2, (kp 20 20, kp 21 20)), (4, (kp 40 40, kp 41 40))], 2)"
proof -
  have hA: "no_duplicate_labels wordsA_distinct"
    by (simp add: no_duplicate_labels_def wordsA_distinct_def)
  have hB: "no_duplicate_labels wordsB_distinct"
    by (simp add: no_duplicate_labels_def wordsB_distinct_def)
  have k: "uUniqueKeys wordsA_distinct = [1, 2, 3, 4]"
    by (simp add: uUniqueKeys_def wordsA_distinct_def)
  have v: "findPairsUnique wordsA_distinct wordsB_distinct =
      ([(2, (kp 20 20, kp 21 20)), (4, (kp 40 40, kp 41 40))], 2)"
    by (simp add: findPairsUnique_def k)
       (simp add: findPairsUnique_step_def uValues_def wordsA_distinct_def wordsB_distinct_def)
  show ?thesis
    using hA hB v findPairsUnique_eq_findPairsAll [OF hA hB] by simp
qed

subsection \<open>Verification facade\<close>

text \<open>
  Claim C1. \<^verbatim>\<open>check\<close> returns false when either signature pointer is null. Otherwise it runs
  \<^verbatim>\<open>findPairsUnique\<close> on the words of the two signatures; when the number of correspondences
  produced is below \<^verbatim>\<open>_matchCountMinAccepted\<close> it returns false and the estimator has not
  been called (the call log is empty). Otherwise it calls the estimator once, on those
  correspondences, and (the library returning a matrix of doubles, which the estimator
  asserts) returns true if and only if the sum of the inlier mask is at least
  \<^verbatim>\<open>_matchCountMinAccepted\<close>.
\<close>

theorem check_decision:
  fixes this :: EpipolarGeometry and est :: fundamental_fit
  defines "pairs a b \<equiv> fst (findPairsUnique (getWords a) (getWords b))"
  shows "(ssA = None \<or> ssB = None \<longrightarrow> check est this ssA ssB = (Inr False, [])) \<and>
         (ssA = Some a \<and> ssB = Some b \<and>
          int (length (pairs a b)) < matchCountMinAccepted this \<longrightarrow>
            check est this ssA ssB = (Inr False, [])) \<and>
         (ssA = Some a \<and> ssB = Some b \<and>
          \<not> int (length (pairs a b)) < matchCountMinAccepted this \<and>
          mtype (fst (fit_of est this (pairs a b))) = CV_64FC1 \<longrightarrow>
            check est this ssA ssB =
              (Inr (matchCountMinAccepted this
                      \<le> (\<Sum>m\<leftarrow>snd (fit_of est this (pairs a b)). uint m)),
               [pairs a b]))"
  by (auto simp: check_def findFFromWords_def Let_def pairs_def fit_of_def points_of_def
      uSum_def split_beta)

text \<open>
  The three cases on the example signatures, with a fit that keeps both correspondences:
  a null pointer; two correspondences against a minimum of three; two against two.
\<close>

theorem check_decision_witness:
  "check all_inliers_fit (facade_example 2) None (Some signature_example_B) = (Inr False, []) \<and>
   check all_inliers_fit (facade_example 3) (Some signature_example_A) (Some signature_example_B)
     = (Inr False, []) \<and>
   check all_inliers_fit (facade_example 2) (Some signature_example_A) (Some signature_example_B)
     = (Inr True, [[(2, (kp 20 20, kp 21 20)), (4, (kp 40 40, kp 41 40))]])"
proof -
  have p: "fst (findPairsUnique (getWords signature_example_A) (getWords signature_example_B)) =
      [(2, (kp 20 20, kp 21 20)), (4, (kp 40 40, kp 41 40))]"
    by (simp add: signature_example_A_def signature_example_B_def findPairsUnique_example)
  have f: "fit_of all_inliers_fit this [(2, (kp 20 20, kp 21 20)), (4, (kp 40 40, kp 41 40))] =
      (Mat64 [[0, 0, 0], [0, 0, - 1], [0, 1, 0]], [1, 1])" for this
    by (simp add: fit_of_def all_inliers_fit_def)
  have t: "mtype (Mat64 m) = CV_64FC1" for m
    by (simp add: Mat64_def)
  show ?thesis
    using check_decision [where ssA = None and ssB = "Some signature_example_B"
              and est = all_inliers_fit and this = "facade_example 2"]
      check_decision [where ssA = "Some signature_example_A" and ssB = "Some signature_example_B"
              and a = signature_example_A and b = signature_example_B
              and this = "facade_example 3" and est = all_inliers_fit]
      check_decision [where ssA = "Some signature_example_A" and ssB = "Some signature_example_B"
              and a = signature_example_A and b = signature_example_B
              and this = "facade_example 2" and est = all_inliers_fit]
    by (simp add: p f t facade_example_def)
qed

subsection \<open>Iterative triangulation\<close>

lemma loop_unfold:
  "iterativeLinearLSTriangulation_loop solve u P u1 P1 i wi wi1 X =
     (if i < 10 \<and> \<not> weights_settled wi wi1 (depth_component P X) (depth_component P1 X)
      then (let rest = iterativeLinearLSTriangulation_loop solve u P u1 P1 (i + 1)
                         (depth_component P X) (depth_component P1 X)
                         (copy_solution X (reweighted_solve solve u P u1 P1
                            (depth_component P X) (depth_component P1 X)))
            in rest\<lparr>passes := \<lparr>estimate = X, old_wi = wi, old_wi1 = wi1,
                  new_p2x = depth_component P X, new_p2x1 = depth_component P1 X\<rparr> # passes rest\<rparr>)
      else \<lparr>final_X = X, final_wi = wi, final_wi1 = wi1, passes = []\<rparr>)"
  by (subst iterativeLinearLSTriangulation_loop.simps)
     (simp add: Let_def weights_settled_def depth_component_def)





lemma loop_stop:
  assumes "\<not> (i < 10 \<and> \<not> weights_settled wi wi1 (depth_component P X) (depth_component P1 X))"
  shows "iterativeLinearLSTriangulation_loop solve u P u1 P1 i wi wi1 X =
     \<lparr>final_X = X, final_wi = wi, final_wi1 = wi1, passes = []\<rparr>"
  using assms by (subst loop_unfold) (erule if_not_P)







lemma depth_component_camera_A: "depth_component camera_A [[a], [b], [c], [d]] = c"
  by (simp add: depth_component_def camera_A_def mat_mul_def ncols_def dot_def at_double_def)
lemma depth_component_camera_B: "depth_component camera_B [[a], [b], [c], [d]] = c"
  by (simp add: depth_component_def camera_B_def mat_mul_def ncols_def dot_def at_double_def)

lemma copy_solution_columns: "copy_solution [[a], [b], [c], [d]] [[x], [y], [z]] = [[x], [y], [z], [d]]"
  by (simp add: copy_solution_def set_at_def at_double_def)

lemma system_holds_depth2:
  "linearLSTriangulation (\<lambda>A B. mat_mul A [[0], [0], [2]]) (Point3d 0 0 1) camera_A
     (Point3d (1/2) 0 1) camera_B =
   linearLSTriangulation (\<lambda>A B. B) (Point3d 0 0 1) camera_A (Point3d (1/2) 0 1) camera_B"
  "reweighted_solve (\<lambda>A B. mat_mul A [[0], [0], [2]]) (Point3d 0 0 1) camera_A
     (Point3d (1/2) 0 1) camera_B 2 2 =
   reweighted_solve (\<lambda>A B. B) (Point3d 0 0 1) camera_A (Point3d (1/2) 0 1) camera_B 2 2"
  by (simp_all add: linearLSTriangulation_def reweighted_solve_def camera_A_def camera_B_def
      at_double_def mat_mul_def ncols_def dot_def)



subsection \<open>Epipoles\<close>

lemma rows_Mat64: "rows (Mat64 [r1, r2, r3]) = 3"
  by (simp add: rows_def Mat64_def)

lemma cols_Mat64: "cols (Mat64 ([a, b, c] # rs)) = 3"
  by (simp add: cols_def Mat64_def)

lemma mtype_Mat64: "mtype (Mat64 m) = CV_64FC1"
  by (simp add: Mat64_def)

lemma elems_Mat64: "elems (Mat64 m) = m"
  by (simp add: Mat64_def)

lemma findEpipolesFromF_valid:
  assumes "rows F = 3" "cols F = 3" "mtype F = CV_64FC1"
  shows "findEpipolesFromF cv_SVD F e =
           (last_column (svd_vt (cv_SVD (elems F))), last_column (svd_u (cv_SVD (elems F))))"
  using assms by (simp add: findEpipolesFromF_def last_column_def Let_def)

text \<open>
  Claim C3, on the matrix \<open>fundamental_example\<close> with its singular value decomposition
  \<open>svd_example\<close>: the code sets \<open>e2\<close> to the last column of \<open>U\<close>, \<open>(0, 0, 1)\<close>, but sets
  \<open>e1\<close> to the last column of \<^verbatim>\<open>svd.vt\<close>, \<open>(0, 1, 0)\<close>, which is the last row of \<open>V\<close>. The last
  column of \<open>V\<close> is \<open>(1, 0, 0)\<close>; it is the vector that the matrix sends to zero, and the
  vector the code returns is not.
\<close>

theorem findEpipolesFromF_takes_column_of_vt:
  "is_SVD (elems fundamental_example) (svd_example (elems fundamental_example)) \<and>
   findEpipolesFromF svd_example fundamental_example (Vec3d 0 0 0, Vec3d 0 0 0) =
     (Vec3d 0 1 0, Vec3d 0 0 1) \<and>
   last_column (mat_t (svd_vt (svd_example (elems fundamental_example)))) = Vec3d 1 0 0 \<and>
   last_column (svd_u (svd_example (elems fundamental_example))) = Vec3d 0 0 1 \<and>
   mat_mul (elems fundamental_example) [[1], [0], [0]] = [[0], [0], [0]] \<and>
   mat_mul (elems fundamental_example) [[0], [1], [0]] = [[2], [0], [0]]"
proof (intro conjI)
  show "is_SVD (elems fundamental_example) (svd_example (elems fundamental_example))"
    by (simp add: is_SVD_def svd_example_def fundamental_example_def Mat64_def diag3_def
        mat_mul_def mat_t_def ncols_def dot_def at_double_def eye3_def)
  show "findEpipolesFromF svd_example fundamental_example (Vec3d 0 0 0, Vec3d 0 0 0) =
     (Vec3d 0 1 0, Vec3d 0 0 1)"
    by (simp add: findEpipolesFromF_valid fundamental_example_def rows_Mat64 cols_Mat64
        mtype_Mat64 svd_example_def last_column_def at_double_def)
  show "last_column (mat_t (svd_vt (svd_example (elems fundamental_example)))) = Vec3d 1 0 0"
    by (simp add: svd_example_def last_column_def mat_t_def ncols_def at_double_def)
  show "last_column (svd_u (svd_example (elems fundamental_example))) = Vec3d 0 0 1"
    by (simp add: svd_example_def last_column_def at_double_def)
  show "mat_mul (elems fundamental_example) [[1], [0], [0]] = [[0], [0], [0]]"
    by (simp add: fundamental_example_def Mat64_def mat_mul_def ncols_def dot_def)
  show "mat_mul (elems fundamental_example) [[0], [1], [0]] = [[2], [0], [0]]"
    by (simp add: fundamental_example_def Mat64_def mat_mul_def ncols_def dot_def)
qed

text \<open>
  Hence on this input \<open>e1\<close> is not the last column of \<open>V\<close>, while \<open>e2\<close> is the last column of
  \<open>U\<close>.
\<close>

theorem findEpipolesFromF_takes_column_of_vt_witness:
  "fst (findEpipolesFromF svd_example fundamental_example (Vec3d 0 0 0, Vec3d 0 0 0)) \<noteq>
     last_column (mat_t (svd_vt (svd_example (elems fundamental_example)))) \<and>
   snd (findEpipolesFromF svd_example fundamental_example (Vec3d 0 0 0, Vec3d 0 0 0)) =
     last_column (svd_u (svd_example (elems fundamental_example)))"
proof -
  note t = findEpipolesFromF_takes_column_of_vt
  have "findEpipolesFromF svd_example fundamental_example (Vec3d 0 0 0, Vec3d 0 0 0) =
     (Vec3d 0 1 0, Vec3d 0 0 1)"
    using t by blast
  moreover have "last_column (mat_t (svd_vt (svd_example (elems fundamental_example)))) =
     Vec3d 1 0 0"
    using t by blast
  moreover have "last_column (svd_u (svd_example (elems fundamental_example))) = Vec3d 0 0 1"
    using t by blast
  ultimately show ?thesis by simp
qed

text \<open>
  Claim C10. When the matrix is not 3\<times>3 or its element type is not \<^verbatim>\<open>CV_64FC1\<close>,
  \<^verbatim>\<open>findEpipolesFromF\<close> returns with both output arguments as they were, whatever the
  library's decomposition would have been.
\<close>

theorem findEpipolesFromF_invalid_input:
  assumes "rows F \<noteq> 3 \<or> cols F \<noteq> 3 \<or> mtype F \<noteq> CV_64FC1"
  shows "findEpipolesFromF cv_SVD F (e1, e2) = (e1, e2)"
  using assms by (auto simp: findEpipolesFromF_def)

theorem findEpipolesFromF_invalid_input_witness:
  "rows two_by_three \<noteq> 3 \<and> mtype float_matrix \<noteq> CV_64FC1 \<and>
   findEpipolesFromF svd_example two_by_three (Vec3d 1 2 3, Vec3d 4 5 6) =
     (Vec3d 1 2 3, Vec3d 4 5 6) \<and>
   findEpipolesFromF svd_example float_matrix (Vec3d 1 2 3, Vec3d 4 5 6) =
     (Vec3d 1 2 3, Vec3d 4 5 6)"
proof -
  have a: "rows two_by_three \<noteq> 3"
    by (simp add: two_by_three_def rows_def Mat64_def)
  have b: "mtype float_matrix \<noteq> CV_64FC1"
    by (simp add: float_matrix_def CV_64FC1_def)
  show ?thesis
    using a b
      findEpipolesFromF_invalid_input [of two_by_three svd_example "Vec3d 1 2 3" "Vec3d 4 5 6"]
      findEpipolesFromF_invalid_input [of float_matrix svd_example "Vec3d 1 2 3" "Vec3d 4 5 6"]
    by simp
qed

subsection \<open>Rotation and translation from a projection matrix\<close>

lemma list3: "length xs = 3 \<Longrightarrow> \<exists>a b c. xs = [a, b, c]"
  by (auto simp: eval_nat_numeral length_Suc_conv)

lemma list4: "length xs = 4 \<Longrightarrow> \<exists>a b c d. xs = [a, b, c, d]"
  by (auto simp: eval_nat_numeral length_Suc_conv)

lemma mat_inv_explicit:
  assumes "D = a * (e * i - f * h) - b * (d * i - f * g) + c * (d * h - e * g)" "D \<noteq> 0"
  shows "mat_inv [[a, b, c], [d, e, f], [g, h, i]] =
      [[(e * i - f * h) / D, (c * h - b * i) / D, (b * f - c * e) / D],
       [(f * g - d * i) / D, (a * i - c * g) / D, (c * d - a * f) / D],
       [(d * h - e * g) / D, (b * g - a * h) / D, (a * e - b * d) / D]]"
proof -
  have "det3 [[a, b, c], [d, e, f], [g, h, i]] = D"
    by (simp add: det3_def at_double_def assms(1))
  then show ?thesis using assms(2)
    by (simp add: mat_inv_def at_double_def)
qed

lemma mat_inv_right:
  assumes "det3 [[a, b, c], [d, e, f], [g, h, i]] \<noteq> 0"
  shows "mat_mul [[a, b, c], [d, e, f], [g, h, i]] (mat_inv [[a, b, c], [d, e, f], [g, h, i]]) = eye3"
proof -
  define D where "D = a * (e * i - f * h) - b * (d * i - f * g) + c * (d * h - e * g)"
  have D0: "D \<noteq> 0" using assms by (simp add: det3_def at_double_def D_def)
  have r: "a * (e * i - f * h) + b * (f * g - d * i) + c * (d * h - e * g) = D"
          "d * (c * h - b * i) + e * (a * i - c * g) + f * (b * g - a * h) = D"
          "g * (b * f - c * e) + h * (c * d - a * f) + i * (a * e - b * d) = D"
    by (simp_all add: D_def algebra_simps)
  have z: "a * (c * h - b * i) + b * (a * i - c * g) + c * (b * g - a * h) = 0"
          "a * (b * f - c * e) + b * (c * d - a * f) + c * (a * e - b * d) = 0"
          "d * (e * i - f * h) + e * (f * g - d * i) + f * (d * h - e * g) = 0"
          "d * (b * f - c * e) + e * (c * d - a * f) + f * (a * e - b * d) = 0"
          "g * (e * i - f * h) + h * (f * g - d * i) + i * (d * h - e * g) = 0"
          "g * (c * h - b * i) + h * (a * i - c * g) + i * (b * g - a * h) = 0"
    by (simp_all add: algebra_simps)
  have q: "p * u / D + (q * v / D + r * w / D) = (p * u + q * v + r * w) / D" for p q r u v w
    by (simp add: add_divide_distrib)
  show ?thesis
    unfolding mat_inv_explicit [OF D_def D0]
    by (simp add: mat_mul_def ncols_def dot_def eye3_def q r z D0)
qed

lemma mat_inv_left:
  assumes "det3 [[a, b, c], [d, e, f], [g, h, i]] \<noteq> 0"
  shows "mat_mul (mat_inv [[a, b, c], [d, e, f], [g, h, i]]) [[a, b, c], [d, e, f], [g, h, i]] = eye3"
proof -
  define D where "D = a * (e * i - f * h) - b * (d * i - f * g) + c * (d * h - e * g)"
  have D0: "D \<noteq> 0" using assms by (simp add: det3_def at_double_def D_def)
  have r: "(e * i - f * h) * a + (c * h - b * i) * d + (b * f - c * e) * g = D"
          "(f * g - d * i) * b + (a * i - c * g) * e + (c * d - a * f) * h = D"
          "(d * h - e * g) * c + (b * g - a * h) * f + (a * e - b * d) * i = D"
    by (simp_all add: D_def algebra_simps)
  have z: "(e * i - f * h) * b + (c * h - b * i) * e + (b * f - c * e) * h = 0"
          "(e * i - f * h) * c + (c * h - b * i) * f + (b * f - c * e) * i = 0"
          "(f * g - d * i) * a + (a * i - c * g) * d + (c * d - a * f) * g = 0"
          "(f * g - d * i) * c + (a * i - c * g) * f + (c * d - a * f) * i = 0"
          "(d * h - e * g) * a + (b * g - a * h) * d + (a * e - b * d) * g = 0"
          "(d * h - e * g) * b + (b * g - a * h) * e + (a * e - b * d) * h = 0"
    by (simp_all add: algebra_simps)
  have q: "u * p / D + (v * q / D + w * r / D) = (u * p + v * q + w * r) / D" for p q r u v w
    by (simp add: add_divide_distrib)
  show ?thesis
    unfolding mat_inv_explicit [OF D_def D0]
    by (simp add: mat_mul_def ncols_def dot_def eye3_def q r z D0)
qed

lemma mat_neg_mul_left: "mat_mul (mat_neg [[a, b, c], [d, e, f], [g, h, i]]) [[a', b', c'], [d', e', f'], [g', h', i']]
   = mat_neg (mat_mul [[a, b, c], [d, e, f], [g, h, i]] [[a', b', c'], [d', e', f'], [g', h', i']])"
  by (simp add: mat_mul_def mat_neg_def ncols_def dot_def)

lemma mat_neg_mul_right: "mat_mul [[a', b', c'], [d', e', f'], [g', h', i']] (mat_neg [[a, b, c], [d, e, f], [g, h, i]])
   = mat_neg (mat_mul [[a', b', c'], [d', e', f'], [g', h', i']] [[a, b, c], [d, e, f], [g, h, i]])"
  by (simp add: mat_mul_def mat_neg_def ncols_def dot_def)

lemma mat_inv_shape: "\<exists>a b c d e f g h i. mat_inv m = [[a, b, c], [d, e, f], [g, h, i]]"
  by (simp add: mat_inv_def Let_def zeros_def eval_nat_numeral)

text \<open>
  Claim C5. For a 3\<times>4 projection matrix whose left 3\<times>3 block \<open>M\<close> has a non-zero
  determinant, \<^verbatim>\<open>findRTFromP\<close> returns the rotation \<open>r = - M\<^sup>-\<^sup>1\<close>, the negated inverse of
  the block (so \<open>r \<cdot> M = M \<cdot> r = - I\<close>), and the translation \<open>t = r \<cdot> p\<^sub>4\<close>, \<open>p\<^sub>4\<close> the fourth
  column.
\<close>

theorem findRTFromP_negated_inverse:
  assumes "rows p = 3" "cols p = 4" "well_formed p" "det3 (left_block p) \<noteq> 0"
  shows "\<exists>r t. findRTFromP p = Inr (r, t) \<and>
           elems r = mat_neg (mat_inv (left_block p)) \<and>
           mat_mul (mat_inv (left_block p)) (left_block p) = eye3 \<and>
           mat_mul (left_block p) (mat_inv (left_block p)) = eye3 \<and>
           mat_mul (elems r) (left_block p) = mat_neg eye3 \<and>
           mat_mul (left_block p) (elems r) = mat_neg eye3 \<and>
           elems t = mat_mul (elems r) (col (elems p) 3)"
proof -
  from assms(1) obtain r1 r2 r3 where e: "elems p = [r1, r2, r3]"
    using list3 [of "elems p"] by (auto simp: rows_def)
  with assms(2,3) have "length r1 = 4" "length r2 = 4" "length r3 = 4"
    by (simp_all add: well_formed_def cols_def)
  then obtain a b c t1 d e' f t2 g h i t3 where
    rs: "r1 = [a, b, c, t1]" "r2 = [d, e', f, t2]" "r3 = [g, h, i, t3]"
    using list4 [of r1] list4 [of r2] list4 [of r3] by auto
  have lb: "left_block p = [[a, b, c], [d, e', f], [g, h, i]]"
    by (simp add: left_block_def submat_def e rs)
  have d0: "det3 [[a, b, c], [d, e', f], [g, h, i]] \<noteq> 0"
    using assms(4) lb by simp
  obtain a' b' c' d' e'' f' g' h' i' where
    inv: "mat_inv [[a, b, c], [d, e', f], [g, h, i]] = [[a', b', c'], [d', e'', f'], [g', h', i']]"
    using mat_inv_shape by blast
  have l: "mat_mul [[a', b', c'], [d', e'', f'], [g', h', i']] [[a, b, c], [d, e', f], [g, h, i]] = eye3"
    using mat_inv_left [OF d0] inv by simp
  have r: "mat_mul [[a, b, c], [d, e', f], [g, h, i]] [[a', b', c'], [d', e'', f'], [g', h', i']] = eye3"
    using mat_inv_right [OF d0] inv by simp
  have f: "findRTFromP p =
      Inr (\<lparr>mtype = mtype p, elems = mat_neg (mat_inv (left_block p))\<rparr>,
           \<lparr>mtype = mtype p, elems = mat_mul (mat_neg (mat_inv (left_block p))) (col (elems p) 3)\<rparr>)"
    using assms(1,2) by (simp add: findRTFromP_def Let_def left_block_def)
  show ?thesis
    unfolding f lb inv
    by (simp add: mat_neg_mul_left mat_neg_mul_right l r)
qed


text \<open>
  The theorem on \<open>projection_example\<close>, where the negated inverse of the block differs from
  its negated transpose.
\<close>

theorem findRTFromP_negated_inverse_witness:
  "rows projection_example = 3 \<and> cols projection_example = 4 \<and>
   well_formed projection_example \<and> det3 (left_block projection_example) \<noteq> 0 \<and>
   findRTFromP projection_example =
     Inr (Mat64 [[- 1, 1, 0], [0, - 1, 0], [0, 0, - 1]], Mat64 [[1], [- 2], [- 3]]) \<and>
   mat_neg (mat_inv (left_block projection_example)) \<noteq>
     mat_neg (mat_t (left_block projection_example))"
proof -
  have lb: "left_block projection_example = [[1, 1, 0], [0, 1, 0], [0, 0, 1]]"
    by (simp add: left_block_def projection_example_def Mat64_def submat_def)
  have h: "rows projection_example = 3" "cols projection_example = 4"
      "well_formed projection_example" "det3 (left_block projection_example) \<noteq> 0"
    unfolding lb
    by (simp_all add: projection_example_def Mat64_def rows_def cols_def well_formed_def
        det3_def at_double_def)
  have inv: "mat_inv [[1, 1, 0], [0, 1, 0], [0, 0, 1]] = [[1, - 1, 0], [0, 1, 0], [0, 0, 1]]"
    by (subst mat_inv_explicit [where D = 1]) simp_all
  from findRTFromP_negated_inverse [OF h] obtain r t where
    rt: "findRTFromP projection_example = Inr (r, t)"
      "elems r = mat_neg (mat_inv (left_block projection_example))"
      "elems t = mat_mul (elems r) (col (elems projection_example) 3)"
    by blast
  have "findRTFromP projection_example =
     Inr (Mat64 [[- 1, 1, 0], [0, - 1, 0], [0, 0, - 1]], Mat64 [[1], [- 2], [- 3]])"
    using h(1,2)
    by (simp add: findRTFromP_def Let_def lb [unfolded left_block_def] inv)
       (simp add: projection_example_def Mat64_def mat_neg_def mat_mul_def col_def ncols_def
          dot_def)
  moreover have "mat_neg (mat_inv (left_block projection_example)) \<noteq>
     mat_neg (mat_t (left_block projection_example))"
    by (simp add: lb inv mat_neg_def mat_t_def ncols_def)
  ultimately show ?thesis using h rt by simp
qed

subsection \<open>Calibrated stereo fundamental matrix\<close>

lemma det3_intrinsics: "det3 (intrinsics fx fy cx cy) = fx * fy"
  by (simp add: det3_def intrinsics_def at_double_def)

lemma mat_inv_intrinsics:
  assumes "fx \<noteq> 0" "fy \<noteq> 0"
  shows "mat_inv (intrinsics fx fy cx cy) = [[1 / fx, 0, - cx / fx], [0, 1 / fy, - cy / fy], [0, 0, 1]]"
  using assms unfolding intrinsics_def
  by (subst mat_inv_explicit [where D = "fx * fy"]) (simp_all add: field_simps)

text \<open>
  Claim C6. For focal lengths \<open>fx\<close> and \<open>fy\<close> other than zero,
  \<^verbatim>\<open>findFFromCalibratedStereoCameras\<close> returns the 3\<times>3 matrix of doubles
  \<open>F = (K\<^sup>-\<^sup>1)\<^sup>t \<cdot> E \<cdot> K\<^sup>-\<^sup>1\<close>, where \<open>K\<close> is the intrinsics matrix, \<open>K\<^sup>-\<^sup>1\<close> its inverse on both
  sides, and \<open>E\<close> the skew-symmetric matrix of \<open>(Tx / - fx, Ty / - fy, 0)\<close> times the identity.
  Written out, \<open>F\<close> has the entries \<open>\<plusminus> Tx / (fx \<cdot> fy)\<close> and \<open>\<plusminus> Ty / (fx \<cdot> fy)\<close> below.
\<close>

theorem findFFromCalibratedStereoCameras_formula:
  fixes fx fy cx cy Tx Ty :: real
  assumes "fx \<noteq> 0" "fy \<noteq> 0"
  defines "K \<equiv> intrinsics fx fy cx cy"
    and "E \<equiv> mat_mul (skew_symmetric (Tx / - fx) (Ty / - fy) 0) eye3"
    and "F \<equiv> findFFromCalibratedStereoCameras fx fy cx cy Tx Ty"
  shows "mat_mul (mat_inv K) K = eye3 \<and> mat_mul K (mat_inv K) = eye3 \<and>
         F = Mat64 (mat_mul (mat_mul (mat_t (mat_inv K)) E) (mat_inv K)) \<and>
         rows F = 3 \<and> cols F = 3 \<and> mtype F = CV_64FC1 \<and>
         elems F = [[0, 0, - Ty / (fx * fy)], [0, 0, Tx / (fx * fy)],
                    [Ty / (fx * fy), - Tx / (fx * fy), 0]]"
proof -
  have d: "det3 [[fx, 0, cx], [0, fy, cy], [0, 0, 1]] \<noteq> 0"
    using assms(1,2) det3_intrinsics [of fx fy cx cy] by (simp add: intrinsics_def)
  have l: "mat_mul (mat_inv K) K = eye3"
    unfolding K_def intrinsics_def by (rule mat_inv_left [OF d])
  have r: "mat_mul K (mat_inv K) = eye3"
    unfolding K_def intrinsics_def by (rule mat_inv_right [OF d])
  have f: "F = Mat64 (mat_mul (mat_mul (mat_t (mat_inv K)) E) (mat_inv K))"
    by (simp add: F_def findFFromCalibratedStereoCameras_def Let_def K_def E_def
        intrinsics_def skew_symmetric_def)
  have e: "elems F = [[0, 0, - Ty / (fx * fy)], [0, 0, Tx / (fx * fy)],
                    [Ty / (fx * fy), - Tx / (fx * fy), 0]]"
    unfolding f K_def E_def mat_inv_intrinsics [OF assms(1,2)]
    using assms(1,2)
    by (simp add: Mat64_def skew_symmetric_def eye3_def mat_mul_def mat_t_def ncols_def dot_def
        field_simps)
  show ?thesis
    using l r f e by (simp add: rows_def cols_def) (simp add: Mat64_def)
qed


theorem findFFromCalibratedStereoCameras_formula_witness:
  "(2 :: real) \<noteq> 0 \<and> (4 :: real) \<noteq> 0 \<and>
   findFFromCalibratedStereoCameras 2 4 1 1 8 0 = Mat64 [[0, 0, 0], [0, 0, 1], [0, - 1, 0]] \<and>
   mat_mul (mat_inv (intrinsics 2 4 1 1)) (intrinsics 2 4 1 1) = eye3"
proof -
  have a: "(2 :: real) \<noteq> 0" and b: "(4 :: real) \<noteq> 0"
    by simp_all
  note t = findFFromCalibratedStereoCameras_formula [OF a b, of 1 1 8 0]
  from t have "elems (findFFromCalibratedStereoCameras 2 4 1 1 8 0) =
      [[0, 0, - 0 / (2 * 4)], [0, 0, 8 / (2 * 4)], [0 / (2 * 4), - 8 / (2 * 4), 0]]"
    by blast
  then have "elems (findFFromCalibratedStereoCameras 2 4 1 1 8 0) =
      [[0, 0, 0], [0, 0, 1], [0, - 1, 0]]"
    by simp
  moreover have "mtype (findFFromCalibratedStereoCameras 2 4 1 1 8 0) = CV_64FC1"
    using t by blast
  ultimately have "findFFromCalibratedStereoCameras 2 4 1 1 8 0 =
      Mat64 [[0, 0, 0], [0, 0, 1], [0, - 1, 0]]"
    by (simp add: Mat64_def)
  moreover from t have "mat_mul (mat_inv (intrinsics 2 4 1 1)) (intrinsics 2 4 1 1) = eye3"
    by blast
  ultimately show ?thesis using a b by blast
qed

subsection \<open>Projection matrix from a fundamental matrix\<close>

lemma is_3x3E:
  assumes "is_3x3 m"
  obtains a b c d e f g h i where "m = [[a, b, c], [d, e, f], [g, h, i]]"
proof -
  from assms obtain r1 r2 r3 where m: "m = [r1, r2, r3]"
    using list3 [of m] by (auto simp: is_3x3_def)
  with assms have "length r1 = 3" "length r2 = 3" "length r3 = 3"
    by (simp_all add: is_3x3_def)
  then show ?thesis using list3 [of r1] list3 [of r2] list3 [of r3] m that by auto
qed

lemma p0_eq: "set_at (set_at (set_at (zeros 3 4) 0 0 1) 1 1 1) 2 2 1 = P0_matrix"
  by (simp add: zeros_def set_at_def P0_matrix_def eval_nat_numeral)

lemma p0_expanded: "set_at (set_at (set_at [[0, 0, 0, 0], [0, 0, 0, 0], [0, 0, 0, 0]] 0 0 1) 1 1 1) 2 2 1
    = P0_matrix"
  by (simp add: set_at_def P0_matrix_def eval_nat_numeral)

lemma skew_eq: "set_at (set_at (set_at (zeros 3 3) 0 1 (- 1)) 1 0 1) 2 2 1 = W_matrix"
  by (simp add: zeros_def set_at_def W_matrix_def eval_nat_numeral)

lemma assign_rotation_3x4:
  "assign_rotation [[p00, p01, p02, p03], [p10, p11, p12, p13], [p20, p21, p22, p23]]
      [[a, b, c], [d, e, f], [g, h, i]] =
   [[a, b, c, p03], [d, e, f, p13], [g, h, i, p23]]"
  by (simp add: assign_rotation_def set_at_def at_double_def eval_nat_numeral)

lemma assign_translation_3x4:
  "assign_translation [[p00, p01, p02, p03], [p10, p11, p12, p13], [p20, p21, p22, p23]] s
      [[t1], [t2], [t3]] =
   [[p00, p01, p02, s * t1], [p10, p11, p12, s * t2], [p20, p21, p22, s * t3]]"
  by (simp add: assign_translation_def set_at_def at_double_def eval_nat_numeral)

lemma length_mat_mul: "length (mat_mul a b) = length a"
  by (simp add: mat_mul_def)

lemma mat_mul_3x3_shape:
  assumes "length m = 3"
  shows "\<exists>a b c d e f g h i. mat_mul m [[a', b', c'], [d', e', f'], [g', h', i']]
      = [[a, b, c], [d, e, f], [g, h, i]]"
proof -
  from assms obtain r1 r2 r3 where "m = [r1, r2, r3]"
    using list3 [of m] by auto
  then show ?thesis by (simp add: mat_mul_def ncols_def)
qed

lemma mat_t_3x3: "mat_t [[a, b, c], [d, e, f], [g, h, i]] = [[a, d, g], [b, e, h], [c, f, i]]"
  by (simp add: mat_t_def ncols_def)

lemma third_coordinate_after_division:
  "at_double (mat_mul [r1, r2, [a, b, c, d]] (dehomogenize x4d)) 2 0 =
     depth_in [r1, r2, [a, b, c, d]] x4d"
  by (simp add: dehomogenize_def mat_mul_def ncols_def dot_def at_double_def depth_in_def
      Let_def)

lemma depth_in_nonzero:
  assumes "x4d ! 3 ! 0 \<noteq> 0"
  shows "depth_in [r1, r2, [a, b, c, d]] x4d =
           (a * (x4d ! 0 ! 0) + b * (x4d ! 1 ! 0) + c * (x4d ! 2 ! 0)) / (x4d ! 3 ! 0) + d"
    and "depth_in P0_matrix x4d = x4d ! 2 ! 0 / (x4d ! 3 ! 0)"
  using assms by (simp_all add: depth_in_def Let_def P0_matrix_def field_simps)

lemma behind_iff:
  "behind_a_camera tri P0_matrix [r1, r2, [a, b, c, d]] x' xp \<longleftrightarrow>
     \<not> in_front_of_both tri x' xp [r1, r2, [a, b, c, d]]"
proof -
  have "at_double (mat_mul P0_matrix (dehomogenize x4d)) 2 0 = depth_in P0_matrix x4d" for x4d
    unfolding P0_matrix_def by (rule third_coordinate_after_division)
  then show ?thesis
    by (auto simp: behind_a_camera_def in_front_of_both_def Let_def
        third_coordinate_after_division)
qed

text \<open>
  Claim C4. For a 3\<times>3 matrix of doubles whose decomposition the library returns as 3\<times>3
  factors, \<^verbatim>\<open>findPFromF\<close> returns the first of the four candidates
  \<open>[U\<cdot>W\<cdot>V\<^sup>t | e]\<close>, \<open>[U\<cdot>W\<cdot>V\<^sup>t | - e]\<close>, \<open>[U\<cdot>W\<^sup>t\<cdot>V\<^sup>t | e]\<close>, \<open>[U\<cdot>W\<^sup>t\<cdot>V\<^sup>t | - e]\<close>, in this
  order, for which the triangulated sample point has non-negative depth in both cameras,
  and the fourth candidate when none has. \<open>U\<close> and \<open>V\<close> are the transposes of what the
  library stored, \<open>e\<close> is the last column of \<open>U\<close>, and the sample is the first column of
  each point matrix.
\<close>

theorem findPFromF_first_candidate_in_front:
  assumes valid: "rows F = 3" "cols F = 3" "mtype F = CV_64FC1"
    and svd: "cvSVD (elems F) = (S, Ut, Vt)" "is_3x3 Ut" "is_3x3 Vt"
  shows "findPFromF cvSVD tri F x1 x2 =
           Mat64 (first_or_last (in_front_of_both tri (col x1 0) (col x2 0))
                    (candidates (mat_t Ut) (mat_t Vt)))"
proof -
  obtain a b c d e f g h i where Ut: "Ut = [[a, b, c], [d, e, f], [g, h, i]]"
    using svd(2) by (rule is_3x3E)
  obtain a' b' c' d' e' f' g' h' i' where Vt: "Vt = [[a', b', c'], [d', e', f'], [g', h', i']]"
    using svd(3) by (rule is_3x3E)
  define U where "U = mat_t Ut"
  define V where "V = mat_t Vt"
  have U: "U = [[a, d, g], [b, e, h], [c, f, i]]" by (simp add: U_def Ut mat_t_3x3)
  have VT: "mat_t V = [[a', b', c'], [d', e', f'], [g', h', i']]"
    by (simp add: V_def Vt mat_t_3x3)
  have e: "col U 2 = [[g], [h], [i]]" by (simp add: U col_def)
  have "\<exists>r11 r12 r13 r21 r22 r23 r31 r32 r33.
      mat_mul (mat_mul U W_matrix) (mat_t V) = [[r11, r12, r13], [r21, r22, r23], [r31, r32, r33]]"
    unfolding VT by (rule mat_mul_3x3_shape) (simp add: length_mat_mul U)
  then obtain r11 r12 r13 r21 r22 r23 r31 r32 r33 where
    R1: "mat_mul (mat_mul U W_matrix) (mat_t V) = [[r11, r12, r13], [r21, r22, r23], [r31, r32, r33]]"
    by blast
  have "\<exists>q11 q12 q13 q21 q22 q23 q31 q32 q33.
      mat_mul (mat_mul U (mat_t W_matrix)) (mat_t V) =
        [[q11, q12, q13], [q21, q22, q23], [q31, q32, q33]]"
    unfolding VT by (rule mat_mul_3x3_shape) (simp add: length_mat_mul U)
  then obtain q11 q12 q13 q21 q22 q23 q31 q32 q33 where
    R2: "mat_mul (mat_mul U (mat_t W_matrix)) (mat_t V) =
           [[q11, q12, q13], [q21, q22, q23], [q31, q32, q33]]"
    by blast
  have c: "candidates U V =
     [[[r11, r12, r13, g], [r21, r22, r23, h], [r31, r32, r33, i]],
      [[r11, r12, r13, - g], [r21, r22, r23, - h], [r31, r32, r33, - i]],
      [[q11, q12, q13, g], [q21, q22, q23, h], [q31, q32, q33, i]],
      [[q11, q12, q13, - g], [q21, q22, q23, - h], [q31, q32, q33, - i]]]"
    by (simp add: candidates_def R1 R2 e hcat_def mat_neg_def)
  have z: "zeros 3 4 = [[0, 0, 0, 0], [0, 0, 0, 0], [0, 0, 0, 0]]"
    by (simp add: zeros_def eval_nat_numeral)
  have "findPFromF cvSVD tri F x1 x2 =
           Mat64 (first_or_last (in_front_of_both tri (col x1 0) (col x2 0)) (candidates U V))"
    apply (simp only: findPFromF_def valid p0_eq p0_expanded skew_eq svd(1) Let_def prod.case
        U_def [symmetric] V_def [symmetric] R1 R2 e z assign_rotation_3x4
        assign_translation_3x4 behind_iff simp_thms if_False)
    apply (simp add: c first_or_last_def)
    done
  then show ?thesis by (simp add: U_def V_def)
qed


text \<open>
  The theorem on \<open>fundamental_example\<close>: with \<open>triangulate_second\<close> the second candidate is
  returned, with \<open>triangulate_behind\<close> no candidate passes and the fourth is returned. The
  point of \<open>triangulate_behind\<close> has third coordinate 1 and, its fourth coordinate being
  \<open>- 1\<close>, depth \<open>- 1\<close> in the reference camera.
\<close>

theorem findPFromF_first_candidate_in_front_witness:
  "rows fundamental_example = 3 \<and> cols fundamental_example = 3 \<and>
   mtype fundamental_example = CV_64FC1 \<and>
   findPFromF cvSVD_example triangulate_second fundamental_example [[0], [0]] [[1], [0]] =
     Mat64 [[0, 0, - 1, 0], [0, 1, 0, 0], [1, 0, 0, - 1]] \<and>
   findPFromF cvSVD_example triangulate_behind fundamental_example [[0], [0]] [[1], [0]] =
     Mat64 [[0, 0, 1, 0], [0, - 1, 0, 0], [1, 0, 0, - 1]] \<and>
   triangulate_behind P0_matrix P0_matrix [[0]] [[1]] ! 2 ! 0 = 1 \<and>
   depth_in P0_matrix (triangulate_behind P0_matrix P0_matrix [[0]] [[1]]) = - 1"
proof -
  have v: "rows fundamental_example = 3" "cols fundamental_example = 3"
      "mtype fundamental_example = CV_64FC1"
    by (simp_all add: fundamental_example_def rows_Mat64 cols_Mat64 mtype_Mat64)
  have s: "cvSVD_example (elems fundamental_example) =
      ([[2, 0, 0], [0, 1, 0], [0, 0, 0]], [[1, 0, 0], [0, 1, 0], [0, 0, 1]],
       [[0, 1, 0], [0, 0, 1], [1, 0, 0]])"
    by (simp add: cvSVD_example_def)
  have i: "is_3x3 [[1, 0, 0], [0, 1, 0], [0, 0, 1]]" "is_3x3 [[0, 1, 0], [0, 0, 1], [1, 0, 0]]"
    by (simp_all add: is_3x3_def)
  have c: "candidates (mat_t [[1, 0, 0], [0, 1, 0], [0, 0, 1]])
                      (mat_t [[0, 1, 0], [0, 0, 1], [1, 0, 0]]) =
     [[[0, 0, - 1, 0], [0, 1, 0, 0], [1, 0, 0, 1]],
      [[0, 0, - 1, 0], [0, 1, 0, 0], [1, 0, 0, - 1]],
      [[0, 0, 1, 0], [0, - 1, 0, 0], [1, 0, 0, 1]],
      [[0, 0, 1, 0], [0, - 1, 0, 0], [1, 0, 0, - 1]]]"
    by (simp add: candidates_def mat_t_3x3 W_matrix_def mat_mul_def ncols_def dot_def col_def
        hcat_def mat_neg_def)
  have d: "depth_in [r1, r2, [p20, p21, p22, p23]] [[a], [b], [c], [- 1]] =
      p23 - (p20 * a + p21 * b + p22 * c)" for r1 r2 p20 p21 p22 p23 a b c
    by (simp add: depth_in_def Let_def)
  have "findPFromF cvSVD_example triangulate_second fundamental_example [[0], [0]] [[1], [0]] =
     Mat64 [[0, 0, - 1, 0], [0, 1, 0, 0], [1, 0, 0, - 1]]"
    unfolding findPFromF_first_candidate_in_front [where cvSVD = cvSVD_example, OF v s i] c
    by (simp add: first_or_last_def in_front_of_both_def triangulate_second_def d
        P0_matrix_def dot_def at_double_def)
  moreover
  have "findPFromF cvSVD_example triangulate_behind fundamental_example [[0], [0]] [[1], [0]] =
     Mat64 [[0, 0, 1, 0], [0, - 1, 0, 0], [1, 0, 0, - 1]]"
    unfolding findPFromF_first_candidate_in_front [where cvSVD = cvSVD_example, OF v s i] c
    by (simp add: first_or_last_def in_front_of_both_def triangulate_behind_def d
        P0_matrix_def dot_def)
  moreover
  have "triangulate_behind P0_matrix P0_matrix [[0]] [[1]] ! 2 ! 0 = 1"
    "depth_in P0_matrix (triangulate_behind P0_matrix P0_matrix [[0]] [[1]]) = - 1"
    by (simp_all add: triangulate_behind_def depth_in_def P0_matrix_def Let_def)
  ultimately show ?thesis using v by simp
qed

subsection \<open>Batch triangulation\<close>

lemma norm_minus_Point2f: "norm_Point2f (minus_Point2f a b) = distance a b"
  by (simp add: norm_Point2f_def minus_Point2f_def distance_def power2_eq_square)

lemma triangulatePoints_residuals:
  assumes "i < length pt_set1"
  shows "snd (snd (triangulatePoints solve fresh pt_set1 pt_set2 P P1)) ! i =
           distance (reproject P1 (triangulated solve fresh pt_set1 pt_set2 P P1 i)) (pt_set1 ! i)"
  using assms
  by (simp add: triangulatePoints_def triangulatePoints_at_def Let_def norm_minus_Point2f
      reproject_def triangulated_def)

lemma triangulatePoints_mean:
  "fst (triangulatePoints solve fresh pt_set1 pt_set2 P P1) =
     cv_mean (snd (snd (triangulatePoints solve fresh pt_set1 pt_set2 P P1)))"
  by (simp add: triangulatePoints_def Let_def)

lemma system_holds_depth1:
  "linearLSTriangulation (\<lambda>A B. mat_mul A [[0], [0], [1]]) (Point3d 0 0 1) camera_A
     (Point3d 1 0 1) camera_B =
   linearLSTriangulation (\<lambda>A B. B) (Point3d 0 0 1) camera_A (Point3d 1 0 1) camera_B"
  by (simp add: linearLSTriangulation_def camera_A_def camera_B_def at_double_def mat_mul_def
      ncols_def dot_def)

lemma iterative_depth1:
  "iterativeLinearLSTriangulation solve_depth1 fresh_example (Point3d 0 0 1) camera_A
     (Point3d 1 0 1) camera_B = [[0], [0], [1], [1]]"
proof -
  have l: "linearLSTriangulation solve_depth1 u P u1 P1 = [[0], [0], [1]]" for u P u1 P1
    by (simp add: linearLSTriangulation_def solve_depth1_def)
  have "iterativeLinearLSTriangulation_loop solve_depth1 u camera_A u1 camera_B 0 1 1
          [[0], [0], [1], [1]] =
        \<lparr>final_X = [[0], [0], [1], [1]], final_wi = 1, final_wi1 = 1, passes = []\<rparr>" for u u1
    by (rule loop_stop)
       (simp add: depth_component_camera_A depth_component_camera_B weights_settled_def
          EPSILON_def)
  then show ?thesis
    by (simp add: iterativeLinearLSTriangulation_def iterativeLinearLSTriangulation_run_def l
        fresh_example_def copy_solution_columns)
qed

lemma residual_for_any_fresh_entry:
  assumes "x3 \<noteq> 1 / 2"
  shows "distance (reproject camera_B [[0], [0], [1], [x3]]) (Point2f 0 0) \<noteq>
         distance (reproject camera_B [[0], [0], [1], [x3]]) (Point2f 1 0)"
proof -
  have m: "mat_mul camera_B [[0], [0], [1], [x3]] = [[x3], [0], [1]]"
    by (simp add: camera_B_def mat_mul_def ncols_def dot_def)
  have "\<bar>x3\<bar> \<noteq> \<bar>x3 - 1\<bar>" using assms by (auto simp: abs_if)
  then show ?thesis
    by (simp add: reproject_def m at_double_def distance_def)
qed

text \<open>
  Claim C2, on one pair of points: view A sees \<open>(0, 0)\<close>, view B sees \<open>(1, 0)\<close>, and the
  triangulated point \<open>(0, 0, 1)\<close> projects into view B exactly onto \<open>(1, 0)\<close>. The distance
  from the projection to the observed point of view B is 0. The code records the distance
  to the observed point of view A, 1, and returns the mean 1.
\<close>

theorem triangulatePoints_compares_with_view_A:
  "triangulatePoints solve_depth1 (\<lambda>i. fresh_example) [Point2f 0 0] [Point2f 1 0]
       camera_A camera_B = (1, [PointXYZ 0 0 1], [1]) \<and>
   triangulated solve_depth1 (\<lambda>i. fresh_example) [Point2f 0 0] [Point2f 1 0]
       camera_A camera_B 0 = [[0], [0], [1], [1]] \<and>
   reproject camera_B [[0], [0], [1], [1]] = Point2f 1 0 \<and>
   distance (reproject camera_B [[0], [0], [1], [1]]) ([Point2f 1 0] ! 0) = 0 \<and>
   distance (reproject camera_B [[0], [0], [1], [1]]) ([Point2f 0 0] ! 0) = 1"
proof -
  have m: "mat_mul camera_B [[0], [0], [1], [1]] = [[1], [0], [1]]"
    by (simp add: camera_B_def mat_mul_def ncols_def dot_def)
  have r: "reproject camera_B [[0], [0], [1], [1]] = Point2f 1 0"
    by (simp add: reproject_def m at_double_def)
  have t: "triangulated solve_depth1 (\<lambda>i. fresh_example) [Point2f 0 0] [Point2f 1 0]
       camera_A camera_B 0 = [[0], [0], [1], [1]]"
    by (simp add: triangulated_def iterative_depth1)
  have a: "triangulatePoints_at solve_depth1 (\<lambda>i. fresh_example) [Point2f 0 0] [Point2f 1 0]
       camera_A camera_B 0 = (1, PointXYZ 0 0 1)"
    by (simp add: triangulatePoints_at_def Let_def iterative_depth1 m at_double_def
        norm_Point2f_def minus_Point2f_def)
  have "triangulatePoints solve_depth1 (\<lambda>i. fresh_example) [Point2f 0 0] [Point2f 1 0]
       camera_A camera_B = (1, [PointXYZ 0 0 1], [1])"
    by (simp add: triangulatePoints_def Let_def a cv_mean_def)
  then show ?thesis using t by (simp add: r distance_def)
qed

text \<open>
  Hence on this input the residual recorded at index 0 is not the distance from the
  projection into view B to the observed point of view B.
\<close>

theorem triangulatePoints_compares_with_view_A_witness:
  "snd (snd (triangulatePoints solve_depth1 (\<lambda>i. fresh_example) [Point2f 0 0] [Point2f 1 0]
       camera_A camera_B)) ! 0 \<noteq>
   distance
     (reproject camera_B
        (triangulated solve_depth1 (\<lambda>i. fresh_example) [Point2f 0 0] [Point2f 1 0]
           camera_A camera_B 0))
     ([Point2f 1 0] ! 0)"
proof -
  note t = triangulatePoints_compares_with_view_A
  have "triangulatePoints solve_depth1 (\<lambda>i. fresh_example) [Point2f 0 0] [Point2f 1 0]
       camera_A camera_B = (1, [PointXYZ 0 0 1], [1])"
    using t by blast
  moreover have "triangulated solve_depth1 (\<lambda>i. fresh_example) [Point2f 0 0] [Point2f 1 0]
       camera_A camera_B 0 = [[0], [0], [1], [1]]"
    using t by blast
  moreover have "distance (reproject camera_B [[0], [0], [1], [1]]) ([Point2f 1 0] ! 0) = 0"
    using t by blast
  ultimately show ?thesis by simp
qed

subsection \<open>Further facts\<close>

text \<open>
  The decomposition of \<open>fundamental_example\<close> with any choice of signs for the singular
  vectors: the column the code reads is \<open>(0, b, 0)\<close>, the last column of \<open>V\<close> is \<open>(d, 0, 0)\<close>.
\<close>

lemma findEpipolesFromF_any_signs:
  assumes "a = 1 \<or> a = - 1" "b = 1 \<or> b = - 1" "c = 1 \<or> c = - 1" "d = 1 \<or> d = - 1"
  defines "s \<equiv> \<lparr>svd_u = [[a, 0, 0], [0, b, 0], [0, 0, c]], svd_w = [[2], [1], [0]],
                 svd_vt = [[0, a, 0], [0, 0, b], [d, 0, 0]]\<rparr>"
  shows "is_SVD (elems fundamental_example) s"
    and "fst (findEpipolesFromF (\<lambda>m. s) fundamental_example e) = Vec3d 0 b 0"
    and "last_column (mat_t (svd_vt s)) = Vec3d d 0 0"
    and "fst (findEpipolesFromF (\<lambda>m. s) fundamental_example e) \<noteq> last_column (mat_t (svd_vt s))"
proof -
  have sq: "a * a = 1" "b * b = 1" "c * c = 1" "d * d = 1"
    using assms(1-4) by auto
  show "is_SVD (elems fundamental_example) s"
    by (simp add: is_SVD_def s_def fundamental_example_def Mat64_def diag3_def mat_mul_def
        mat_t_def ncols_def dot_def at_double_def eye3_def sq)
  show e1: "fst (findEpipolesFromF (\<lambda>m. s) fundamental_example e) = Vec3d 0 b 0"
    by (simp add: findEpipolesFromF_valid fundamental_example_def rows_Mat64 cols_Mat64
        mtype_Mat64 s_def last_column_def at_double_def)
  show v: "last_column (mat_t (svd_vt s)) = Vec3d d 0 0"
    by (simp add: s_def last_column_def mat_t_def ncols_def at_double_def)
  show "fst (findEpipolesFromF (\<lambda>m. s) fundamental_example e) \<noteq> last_column (mat_t (svd_vt s))"
    unfolding e1 v using assms(2) by auto
qed

text \<open>When the library's matrix is not of doubles, the assertion of the estimator ends the call.\<close>

lemma check_assertion_failure:
  assumes "ssA = Some a" "ssB = Some b"
    and "\<not> int (length (fst (findPairsUnique (getWords a) (getWords b)))) < matchCountMinAccepted this"
    and "mtype (fst (fit_of est this (fst (findPairsUnique (getWords a) (getWords b))))) \<noteq> CV_64FC1"
  shows "check est this ssA ssB =
           (Inl AssertionFailed, [fst (findPairsUnique (getWords a) (getWords b))])"
  using assms
  by (simp add: check_def findFFromWords_def Let_def fit_of_def points_of_def)

end
